theory Spec2Isabelle
  imports Complex_Main "HOL-Library.Sublist"
begin

section \<open>Data model\<close>

text \<open>
  The module \<^verbatim>\<open>go-tools/enrichment_stats.py\<close> works on three kinds of dictionaries:
  the ontology \<^verbatim>\<open>GOdict\<close> (GO id to term object), the gene association
  dictionaries \<^verbatim>\<open>gafDict\<close> and \<^verbatim>\<open>gafSubset\<close> (gene to set of GO ids) and
  the result table \<^verbatim>\<open>enrichmentTestResults\<close> (a dictionary of dictionaries).

  A term object carries Python sets of GO ids. Only \<^verbatim>\<open>parents\<close> is iterated over, the
  other sets are used for membership; all are lists here, the list giving the (arbitrary but
  fixed) iteration order of the set.
\<close>

type_synonym GOid = string

record GOterm =
  name :: string
  namespace :: string
  parents :: "GOid list"
  children :: "GOid list"
  recursive_parents :: "GOid list"
  recursive_children :: "GOid list"

type_synonym GOdict = "GOid \<rightharpoonup> GOterm"

text \<open>
  An association dictionary is iterated over with \<^verbatim>\<open>.items()\<close> and measured with
  \<^verbatim>\<open>len\<close>: it is the list of its items.
\<close>

type_synonym gaf = "(string \<times> GOid list) list"

text \<open>\<^verbatim>\<open>GOdict[GOid]\<close> raises \<^verbatim>\<open>KeyError\<close> for an id the ontology does not hold.\<close>

datatype error = KeyError GOid

text \<open>
  The result table \<^verbatim>\<open>{'pValues': {}, 'interestCount': {}, 'backgroundCount': {}}\<close>,
  to which \<^verbatim>\<open>multipleTestingCorrection\<close> adds the key \<^verbatim>\<open>'corr'\<close>. Every
  sub-dictionary is the list of its items in insertion order, which is the order of
  \<^verbatim>\<open>.keys()\<close> and \<^verbatim>\<open>.values()\<close>.

  The field \<open>tested\<close> is a history variable that the Python dictionary does not have: the
  sequence of terms for which the hypergeometric test was run and written, one entry per
  execution of lines 292 to 296.
\<close>

record enrichmentTestResults =
  pValues :: "(GOid \<times> real) list"
  interestCount :: "(GOid \<times> int) list"
  backgroundCount :: "(GOid \<times> int) list"
  corr :: "(GOid \<times> real) list option"
  tested :: "GOid list"

section \<open>Dictionaries in insertion order\<close>

definition dict_keys :: "('k \<times> 'v) list \<Rightarrow> 'k list" where
  "dict_keys d = map fst d"

definition dict_values :: "('k \<times> 'v) list \<Rightarrow> 'v list" where
  "dict_values d = map snd d"

text \<open>\<^verbatim>\<open>d[k] = v\<close>: an existing key keeps its position and gets the new value, a new key is
  appended.\<close>

fun dict_set :: "('k \<times> 'v) list \<Rightarrow> 'k \<Rightarrow> 'v \<Rightarrow> ('k \<times> 'v) list" where
  "dict_set [] k v = [(k, v)]"
| "dict_set ((k', v') # d) k v = (if k' = k then (k, v) # d else (k', v') # dict_set d k v)"

text \<open>A dictionary comprehension \<^verbatim>\<open>{k: v for k, v in pairs}\<close>.\<close>

definition dict_of_pairs :: "('k \<times> 'v) list \<Rightarrow> ('k \<times> 'v) list" where
  "dict_of_pairs kvs = fold (\<lambda>(k, v) d. dict_set d k v) kvs []"

section \<open>The hypergeometric test\<close>

text \<open>
  \<^verbatim>\<open>enrichmentOneSided\<close> (lines 65 to 96) hands its four counts to
  \<^verbatim>\<open>scipy.stats.hypergeom.sf\<close>, which is not part of the repository: the survival
  function is the parameter \<open>sf\<close>. Floating point numbers are real numbers here; rounding
  and the value NaN, which the library returns for counts that are no valid parameters, have
  no counterpart.
\<close>

definition enrichmentOneSided ::
  "(int \<Rightarrow> int \<Rightarrow> int \<Rightarrow> int \<Rightarrow> real) \<Rightarrow> int \<Rightarrow> int \<Rightarrow> int \<Rightarrow> int \<Rightarrow> real" where
  "enrichmentOneSided sf subsetGO backgroundTotal backgroundGO subsetTotal =
     sf (subsetGO - 1) backgroundTotal backgroundGO subsetTotal"

text \<open>
  Modelled from the spec: \<^verbatim>\<open>scipy.stats.hypergeom\<close> is an external library that is not
  under src/. The specification describes the p-value as the probability of at least \<open>k\<close>
  successes in \<open>N\<close> draws without replacement from a population of \<open>M\<close> holding \<open>n\<close>
  successes, "computed as the survival function evaluated at \<open>k - 1\<close>
  (\<open>1 - CDF(k - 1)\<close>)". The functions below are that distribution in exact arithmetic,
  with the argument order \<open>(x, M, n, N)\<close> of the call in line 93.
\<close>

definition hypergeom_pmf :: "nat \<Rightarrow> nat \<Rightarrow> nat \<Rightarrow> nat \<Rightarrow> real" where
  "hypergeom_pmf M n N j =
     (if j \<le> N then real ((n choose j) * ((M - n) choose (N - j))) / real (M choose N) else 0)"

definition hypergeom_cdf :: "int \<Rightarrow> int \<Rightarrow> int \<Rightarrow> int \<Rightarrow> real" where
  "hypergeom_cdf x M n N =
     sum_list (map (hypergeom_pmf (nat M) (nat n) (nat N)) [0..<nat (x + 1)])"

definition hypergeom_sf :: "int \<Rightarrow> int \<Rightarrow> int \<Rightarrow> int \<Rightarrow> real" where
  "hypergeom_sf x M n N = 1 - hypergeom_cdf x M n N"

section \<open>Counting associations\<close>

text \<open>\<^verbatim>\<open>countGOassociations\<close> (lines 99 to 125): the loop over \<^verbatim>\<open>gafDict.items()\<close>
  with its counter.\<close>

definition countGOassociations :: "GOid set \<Rightarrow> gaf \<Rightarrow> int" where
  "countGOassociations validTerms gafDict =
     fold (\<lambda>(gene, GOids) GOcounter.
             if validTerms \<inter> set GOids \<noteq> {} then GOcounter + 1 else GOcounter)
          gafDict 0"

section \<open>The recursive tester\<close>

text \<open>
  A \<^verbatim>\<open>for\<close> loop whose body may raise or may not return: the loop stops at the first
  exception, and does not return when one iteration does not return. \<open>None\<close> stands for a
  call that never returns, \<open>Some (Inl e)\<close> for a raised exception and \<open>Some (Inr s)\<close> for a
  normal return with the state \<open>s\<close>.
\<close>

fun forEach :: "'a list \<Rightarrow> ('a \<Rightarrow> 's \<Rightarrow> (error + 's) option) \<Rightarrow> 's \<Rightarrow> (error + 's) option" where
  "forEach [] body s = Some (Inr s)"
| "forEach (x # xs) body s =
     Option.bind (body x s)
       (\<lambda>r. case r of Inl e \<Rightarrow> Some (Inl e) | Inr s' \<Rightarrow> forEach xs body s')"

lemma forEach_mono [partial_function_mono]:
  assumes "\<And>x s. mono_option (\<lambda>f. body f x s)"
  shows "mono_option (\<lambda>f. forEach xs (body f) s)"
proof (induction xs arbitrary: s)
  case Nil
  show ?case by (simp add: option.const_mono)
next
  case (Cons x xs)
  show ?case
    unfolding forEach.simps
  proof (rule bind_mono)
    show "mono_option (\<lambda>f. body f x s)" by (rule assms)
  next
    fix r :: "error + 'b"
    show "mono_option (\<lambda>f. case r of Inl e \<Rightarrow> Some (Inl e) | Inr s' \<Rightarrow> forEach xs (body f) s')"
      by (cases r) (simp_all add: option.const_mono Cons.IH)
  qed
qed

text \<open>Lines 294 to 296: the three writes for one tested term (and its entry in the history).\<close>

definition record_result ::
  "GOid \<Rightarrow> real \<Rightarrow> int \<Rightarrow> int \<Rightarrow> enrichmentTestResults \<Rightarrow> enrichmentTestResults" where
  "record_result GOid pVal subsetGO backgroundGO r =
     r\<lparr>pValues := dict_set (pValues r) GOid pVal,
       interestCount := dict_set (interestCount r) GOid subsetGO,
       backgroundCount := dict_set (backgroundCount r) GOid backgroundGO,
       tested := tested r @ [GOid]\<rparr>"

text \<open>
  \<^verbatim>\<open>recursiveTester\<close> (lines 228 to 308). The result table is mutated in place in the
  source and threaded through here. The recursion follows the parent sets of the ontology and
  nothing in the code bounds it, so the function is partial: on a hierarchy with a cycle it
  may not return (CPython ends such a run with \<^verbatim>\<open>RecursionError\<close> once the interpreter's
  stack limit is reached; that limit is not modelled).
\<close>

partial_function (option) recursiveTester ::
  "(int \<Rightarrow> int \<Rightarrow> int \<Rightarrow> int \<Rightarrow> real) \<Rightarrow> GOid \<Rightarrow> int \<Rightarrow> int \<Rightarrow> GOdict \<Rightarrow> gaf \<Rightarrow> gaf \<Rightarrow> int \<Rightarrow> real
     \<Rightarrow> enrichmentTestResults \<Rightarrow> (error + enrichmentTestResults) option" where
  "recursiveTester sf GOid backgroundTotal subsetTotal GOdict gafDict gafSubset minGenes threshold
       enrichmentTestResults =
     (if GOid \<notin> set (dict_keys (pValues enrichmentTestResults)) then
        (case GOdict GOid of
           None \<Rightarrow> Some (Inl (KeyError GOid))
         | Some t \<Rightarrow>
            (let validTerms = insert GOid (set (recursive_children t));
                 backgroundGO = countGOassociations validTerms gafDict;
                 subsetGO = countGOassociations validTerms gafSubset
             in if backgroundGO < minGenes then
                  forEach (parents t)
                    (\<lambda>parent. recursiveTester sf parent backgroundTotal subsetTotal GOdict gafDict
                                 gafSubset minGenes threshold)
                    enrichmentTestResults
                else
                  (let pVal = enrichmentOneSided sf subsetGO backgroundTotal backgroundGO subsetTotal;
                       results' = record_result GOid pVal subsetGO backgroundGO enrichmentTestResults
                   in if pVal > threshold then
                        forEach (parents t)
                          (\<lambda>parent. recursiveTester sf parent backgroundTotal subsetTotal GOdict
                                       gafDict gafSubset minGenes threshold)
                          results'
                      else Some (Inr results'))))
      else Some (Inr enrichmentTestResults))"

section \<open>The enrichment analysis\<close>

text \<open>
  Line 191, \<^verbatim>\<open>{parent for GOid in subsetGOids for parent in GOdict[GOid].recursive_parents}\<close>:
  the first id that the ontology does not hold raises \<^verbatim>\<open>KeyError\<close>.
\<close>

fun subsetGOidsParents :: "GOdict \<Rightarrow> GOid list \<Rightarrow> error + GOid set" where
  "subsetGOidsParents GOdict [] = Inr {}"
| "subsetGOidsParents GOdict (GOid # rest) =
     (case GOdict GOid of
        None \<Rightarrow> Inl (KeyError GOid)
      | Some t \<Rightarrow>
         (case subsetGOidsParents GOdict rest of
            Inl e \<Rightarrow> Inl e
          | Inr ps \<Rightarrow> Inr (set (recursive_parents t) \<union> ps)))"

text \<open>
  Lines 184 to 192. \<^verbatim>\<open>subsetGOids\<close> is a Python set; its iteration order is not
  specified by the language, and the list without duplicates stands for it.
\<close>

definition baseGOids :: "GOdict \<Rightarrow> gaf \<Rightarrow> error + GOid list" where
  "baseGOids GOdict gafSubset =
     (let subsetGOids = remdups (concat (map snd gafSubset))
      in case subsetGOidsParents GOdict subsetGOids of
           Inl e \<Rightarrow> Inl e
         | Inr ps \<Rightarrow> Inr (filter (\<lambda>GOid. GOid \<notin> ps) subsetGOids))"

text \<open>Line 210: the empty result table.\<close>

definition empty_results :: enrichmentTestResults where
  "empty_results =
     \<lparr>pValues = [], interestCount = [], backgroundCount = [], corr = None, tested = []\<rparr>"

text \<open>\<^verbatim>\<open>enrichmentAnalysis\<close> (lines 128 to 225), without its two \<^verbatim>\<open>print\<close> calls.\<close>

definition enrichmentAnalysis ::
  "(int \<Rightarrow> int \<Rightarrow> int \<Rightarrow> int \<Rightarrow> real) \<Rightarrow> GOdict \<Rightarrow> gaf \<Rightarrow> gaf \<Rightarrow> int \<Rightarrow> real
     \<Rightarrow> (error + enrichmentTestResults) option" where
  "enrichmentAnalysis sf GOdict gafDict gafSubset minGenes threshold =
     (case baseGOids GOdict gafSubset of
        Inl e \<Rightarrow> Some (Inl e)
      | Inr base \<Rightarrow>
         (let backgroundTotal = int (length gafDict);
              subsetTotal = int (length gafSubset)
          in forEach base
               (\<lambda>GOid. recursiveTester sf GOid backgroundTotal subsetTotal GOdict gafDict
                          gafSubset minGenes threshold)
               empty_results))"

section \<open>Multiple testing correction\<close>

text \<open>The two values of the argument \<^verbatim>\<open>method\<close> that the module passes to
  \<^verbatim>\<open>multipletests\<close>.\<close>

datatype correction_method = bonferroni | fdr_bh

text \<open>
  \<^verbatim>\<open>multipleTestingCorrection\<close> (lines 311 to 351), without its \<^verbatim>\<open>print\<close> calls.
  \<^verbatim>\<open>statsmodels.sandbox.stats.multicomp.multipletests\<close> is the parameter \<open>mt\<close>; of its
  result the code reads \<^verbatim>\<open>corr[0]\<close> (the rejection flags, printed only) and
  \<^verbatim>\<open>corr[1]\<close> (the corrected p-values).
\<close>

definition multipleTestingCorrection ::
  "(real list \<Rightarrow> real \<Rightarrow> correction_method \<Rightarrow> bool list \<times> real list)
     \<Rightarrow> enrichmentTestResults \<Rightarrow> string \<Rightarrow> real \<Rightarrow> enrichmentTestResults" where
  "multipleTestingCorrection mt enrichmentTestResults testType threshold =
     (let pVals = dict_values (pValues enrichmentTestResults);
          terms = dict_keys (pValues enrichmentTestResults);
          corr' = (if testType = ''bonferroni'' then mt pVals threshold bonferroni
                   else mt pVals threshold fdr_bh)
      in enrichmentTestResults\<lparr>corr := Some (dict_of_pairs (zip terms (snd corr')))\<rparr>)"

text \<open>
  Modelled from the spec: \<^verbatim>\<open>statsmodels\<close> is an external library that is not under
  src/. The specification names the two corrections, Bonferroni and Benjamini-Hochberg with
  "the standard step-up adjustment", and a count of the terms significant after correction.
  With \<open>n\<close> p-values, Bonferroni multiplies each by \<open>n\<close>; Benjamini-Hochberg gives \<open>p\<close> the
  least \<open>q * n / rank q\<close> over the p-values \<open>q \<ge> p\<close>, where \<open>rank q\<close> counts the p-values up
  to \<open>q\<close>; both are capped at 1.
\<close>

definition multipletests :: "real list \<Rightarrow> real \<Rightarrow> correction_method \<Rightarrow> bool list \<times> real list" where
  "multipletests pvals alpha method =
     (let n = real (length pvals);
          corrected =
            (case method of
               bonferroni \<Rightarrow> map (\<lambda>p. min 1 (p * n)) pvals
             | fdr_bh \<Rightarrow>
                 map (\<lambda>p. foldr min
                             (map (\<lambda>q. q * n / real (length (filter (\<lambda>r. r \<le> q) pvals)))
                                  (filter (\<lambda>q. p \<le> q) pvals))
                             1)
                     pvals)
      in (map (\<lambda>c. c \<le> alpha) corrected, corrected))"

section \<open>Predicates of the statements\<close>

text \<open>The direct parent relation of an ontology: \<open>(p, g)\<close> when \<open>p\<close> is a parent of \<open>g\<close>.\<close>

definition parent_rel :: "GOdict \<Rightarrow> (GOid \<times> GOid) set" where
  "parent_rel GOdict = {(p, g). \<exists>t. GOdict g = Some t \<and> p \<in> set (parents t)}"

text \<open>Every parent that a term names is a term of the ontology.\<close>

definition closed_hierarchy :: "GOdict \<Rightarrow> bool" where
  "closed_hierarchy GOdict = (\<forall>g t. GOdict g = Some t \<longrightarrow> set (parents t) \<subseteq> dom GOdict)"

text \<open>A term that the tester records when it reaches it: known to the ontology, with a
  background count of at least \<open>minGenes\<close>.\<close>

definition testable :: "GOdict \<Rightarrow> gaf \<Rightarrow> int \<Rightarrow> GOid \<Rightarrow> bool" where
  "testable GOdict gafDict minGenes g =
     (case GOdict g of
        None \<Rightarrow> False
      | Some t \<Rightarrow> \<not> countGOassociations (insert g (set (recursive_children t))) gafDict < minGenes)"

text \<open>A result table as a run builds it: the three dictionaries have the same keys in the same
  order, no key twice, and the history lists exactly these keys.\<close>

definition consistent_results :: "enrichmentTestResults \<Rightarrow> bool" where
  "consistent_results r =
     (distinct (dict_keys (pValues r)) \<and>
      dict_keys (interestCount r) = dict_keys (pValues r) \<and>
      dict_keys (backgroundCount r) = dict_keys (pValues r) \<and>
      tested r = dict_keys (pValues r))"

text \<open>From a consistent table \<open>a\<close>, the table \<open>b\<close> is consistent again and its three dictionaries
  are those of \<open>a\<close> with further entries at the end.\<close>

definition extends_results :: "enrichmentTestResults \<Rightarrow> enrichmentTestResults \<Rightarrow> bool" where
  "extends_results a b =
     (consistent_results a \<longrightarrow>
        consistent_results b \<and> prefix (pValues a) (pValues b) \<and>
        prefix (interestCount a) (interestCount b) \<and>
        prefix (backgroundCount a) (backgroundCount b))"

section \<open>Example data\<close>

text \<open>
  The end-to-end scenario of the specification: a background of ten genes, a subset of three,
  a term \<open>T\<close> below a root. One gene is annotated with the root itself.
\<close>

definition example_GOdict :: GOdict where
  "example_GOdict =
     [''T'' \<mapsto> \<lparr>name = ''leaf'', namespace = ''biological_process'', parents = [''root''],
                children = [], recursive_parents = [''root''], recursive_children = []\<rparr>,
      ''root'' \<mapsto> \<lparr>name = ''root'', namespace = ''biological_process'', parents = [],
                children = [''T''], recursive_parents = [], recursive_children = [''T'']\<rparr>]"

definition example_gafDict :: gaf where
  "example_gafDict =
     [(''g1'', [''T'']), (''g2'', [''T'']), (''g3'', [''T'']), (''g4'', [''T'']),
      (''g5'', [''root'']), (''g6'', []), (''g7'', []), (''g8'', []), (''g9'', []),
      (''g10'', [])]"

definition example_gafSubset :: gaf where
  "example_gafSubset = [(''g1'', [''T'']), (''g2'', [''T'']), (''g5'', [''root''])]"

definition example_results :: enrichmentTestResults where
  "example_results =
     \<lparr>pValues = [(''T'', 1 / 3), (''root'', 1 / 12)],
      interestCount = [(''T'', 2), (''root'', 3)],
      backgroundCount = [(''T'', 4), (''root'', 5)],
      corr = None, tested = [''T'', ''root'']\<rparr>"

text \<open>A diamond: the base terms \<open>A\<close> and \<open>B\<close> have the parents \<open>PA\<close> and \<open>PB\<close>, which share the
  parent \<open>G\<close>.\<close>

definition diamond_GOdict :: GOdict where
  "diamond_GOdict =
     [''A'' \<mapsto> \<lparr>name = ''a'', namespace = ''biological_process'', parents = [''PA''],
                children = [], recursive_parents = [''PA'', ''G''], recursive_children = []\<rparr>,
      ''B'' \<mapsto> \<lparr>name = ''b'', namespace = ''biological_process'', parents = [''PB''],
                children = [], recursive_parents = [''PB'', ''G''], recursive_children = []\<rparr>,
      ''PA'' \<mapsto> \<lparr>name = ''pa'', namespace = ''biological_process'', parents = [''G''],
                children = [''A''], recursive_parents = [''G''], recursive_children = [''A'']\<rparr>,
      ''PB'' \<mapsto> \<lparr>name = ''pb'', namespace = ''biological_process'', parents = [''G''],
                children = [''B''], recursive_parents = [''G''], recursive_children = [''B'']\<rparr>,
      ''G'' \<mapsto> \<lparr>name = ''g'', namespace = ''biological_process'', parents = [],
                children = [''PA'', ''PB''], recursive_parents = [],
                recursive_children = [''PA'', ''PB'', ''A'', ''B'']\<rparr>]"

definition diamond_gafDict :: gaf where
  "diamond_gafDict =
     [(''g1'', [''A'']), (''g2'', [''A'']), (''g3'', [''A'']), (''g4'', [''B'']),
      (''g5'', [''B'']), (''g6'', [''B'']), (''g7'', []), (''g8'', [])]"

definition diamond_gafSubset :: gaf where
  "diamond_gafSubset = [(''g1'', [''A'']), (''g4'', [''B'']), (''g7'', [])]"

definition diamond_results_AB :: enrichmentTestResults where
  "diamond_results_AB =
     \<lparr>pValues = [(''A'', 23 / 28), (''PA'', 23 / 28), (''G'', 25 / 28), (''B'', 23 / 28),
                 (''PB'', 23 / 28)],
      interestCount = [(''A'', 1), (''PA'', 1), (''G'', 2), (''B'', 1), (''PB'', 1)],
      backgroundCount = [(''A'', 3), (''PA'', 3), (''G'', 6), (''B'', 3), (''PB'', 3)],
      corr = None, tested = [''A'', ''PA'', ''G'', ''B'', ''PB'']\<rparr>"

definition diamond_results_BA :: enrichmentTestResults where
  "diamond_results_BA =
     \<lparr>pValues = [(''B'', 23 / 28), (''PB'', 23 / 28), (''G'', 25 / 28), (''A'', 23 / 28),
                 (''PA'', 23 / 28)],
      interestCount = [(''B'', 1), (''PB'', 1), (''G'', 2), (''A'', 1), (''PA'', 1)],
      backgroundCount = [(''B'', 3), (''PB'', 3), (''G'', 6), (''A'', 3), (''PA'', 3)],
      corr = None, tested = [''B'', ''PB'', ''G'', ''A'', ''PA'']\<rparr>"

text \<open>A malformed hierarchy: the term \<open>C\<close> is its own parent, and the base term \<open>B\<close> lies
  below it. One gene is annotated with \<open>B\<close>.\<close>

definition cyclic_GOdict :: GOdict where
  "cyclic_GOdict =
     [''B'' \<mapsto> \<lparr>name = ''b'', namespace = ''biological_process'', parents = [''C''],
                children = [], recursive_parents = [''C''], recursive_children = []\<rparr>,
      ''C'' \<mapsto> \<lparr>name = ''c'', namespace = ''biological_process'', parents = [''C''],
                children = [''B'', ''C''], recursive_parents = [''C''],
                recursive_children = [''B'', ''C'']\<rparr>]"

definition cyclic_gaf :: gaf where
  "cyclic_gaf = [(''g1'', [''B''])]"

section \<open>Properties\<close>

subsection \<open>Loops and the recursion\<close>

lemma forEach_rel:
  assumes refl: "\<And>s. R s s"
    and trans: "\<And>s s' s''. R s s' \<Longrightarrow> R s' s'' \<Longrightarrow> R s s''"
    and body: "\<And>x s s'. x \<in> set xs \<Longrightarrow> body x s = Some (Inr s') \<Longrightarrow> R s s'"
    and run: "forEach xs body s = Some (Inr s')"
  shows "R s s'"
  using body run
proof (induction xs arbitrary: s)
  case Nil
  then show ?case by (simp add: refl)
next
  case (Cons x xs)
  from Cons.prems(2) obtain s1 where s1: "body x s = Some (Inr s1)"
    and rest: "forEach xs body s1 = Some (Inr s')"
    by (cases "body x s") (auto split: sum.splits)
  have "R s s1" using Cons.prems(1)[of x s s1] s1 by simp
  moreover have "R s1 s'"
  proof (rule Cons.IH[OF _ rest])
    fix y a b
    assume "y \<in> set xs" "body y a = Some (Inr b)"
    then show "R a b" using Cons.prems(1)[of y a b] by simp
  qed
  ultimately show ?case by (rule trans)
qed

lemma forEach_total:
  assumes "\<And>x s. x \<in> set xs \<Longrightarrow> \<exists>r. body x s = Some r"
  shows "\<exists>r. forEach xs body s = Some r"
  using assms
proof (induction xs arbitrary: s)
  case Nil
  show ?case by simp
next
  case (Cons x xs)
  obtain r where r: "body x s = Some r" using Cons.prems by force
  show ?case
  proof (cases r)
    case (Inl e)
    with r show ?thesis by simp
  next
    case (Inr s1)
    have "\<exists>r. forEach xs body s1 = Some r" using Cons.IH Cons.prems by simp
    with r Inr show ?thesis by simp
  qed
qed

lemma forEach_ok:
  assumes "\<And>x s. x \<in> set xs \<Longrightarrow> \<exists>s'. body x s = Some (Inr s')"
  shows "\<exists>s'. forEach xs body s = Some (Inr s')"
  using assms
proof (induction xs arbitrary: s)
  case Nil
  show ?case by simp
next
  case (Cons x xs)
  obtain s1 where r: "body x s = Some (Inr s1)" using Cons.prems by force
  have "\<exists>s'. forEach xs body s1 = Some (Inr s')" using Cons.IH Cons.prems by simp
  with r show ?case by simp
qed

lemma recursiveTester_rel:
  assumes refl: "\<And>s. R s s"
    and trans: "\<And>s s' s''. R s s' \<Longrightarrow> R s' s'' \<Longrightarrow> R s s''"
    and step: "\<And>g t s. g \<notin> set (dict_keys (pValues s)) \<Longrightarrow> GOdict g = Some t \<Longrightarrow>
        \<not> countGOassociations (insert g (set (recursive_children t))) gafDict < minGenes \<Longrightarrow>
        R s (record_result g
              (enrichmentOneSided sf (countGOassociations (insert g (set (recursive_children t))) gafSubset)
                 bT (countGOassociations (insert g (set (recursive_children t))) gafDict) sT)
              (countGOassociations (insert g (set (recursive_children t))) gafSubset)
              (countGOassociations (insert g (set (recursive_children t))) gafDict) s)"
    and run: "recursiveTester sf g bT sT GOdict gafDict gafSubset minGenes threshold s = Some (Inr s')"
  shows "R s s'"
proof -
  let ?rt = "\<lambda>f p. f sf p bT sT GOdict gafDict gafSubset minGenes"
  have "sf' = sf \<and> bT' = bT \<and> sT' = sT \<and> GOdict' = GOdict \<and> gafDict' = gafDict \<and>
        gafSubset' = gafSubset \<and> minGenes' = minGenes \<longrightarrow>
        (\<forall>s1. y = Inr s1 \<longrightarrow> R s0 s1)"
    if "recursiveTester sf' g' bT' sT' GOdict' gafDict' gafSubset' minGenes' threshold' s0 = Some y"
    for sf' g' bT' sT' GOdict' gafDict' gafSubset' minGenes' threshold' s0 y
  proof (rule recursiveTester.raw_induct[where P = "\<lambda>sf' g' bT' sT' GOdict' gafDict' gafSubset' minGenes' threshold' s0 y.
        sf' = sf \<and> bT' = bT \<and> sT' = sT \<and> GOdict' = GOdict \<and> gafDict' = gafDict \<and>
        gafSubset' = gafSubset \<and> minGenes' = minGenes \<longrightarrow>
        (\<forall>s1. y = Inr s1 \<longrightarrow> R s0 s1)", OF _ that], goal_cases)
    case (1 rT sf' g' bT' sT' GOdict' gafDict' gafSubset' minGenes' threshold' s0 y)
    show ?case
    proof (intro impI allI)
      fix s1
      assume eqs: "sf' = sf \<and> bT' = bT \<and> sT' = sT \<and> GOdict' = GOdict \<and> gafDict' = gafDict \<and>
        gafSubset' = gafSubset \<and> minGenes' = minGenes" and y: "y = Inr s1"
      have IH: "R a b" if "rT sf p bT sT GOdict gafDict gafSubset minGenes threshold' a = Some (Inr b)"
        for p a b
        using "1"(1)[OF that] by simp
      have loop: "R a b"
        if "forEach ps (\<lambda>p. rT sf p bT sT GOdict gafDict gafSubset minGenes threshold') a = Some (Inr b)"
        for ps a b
        using refl trans IH that by (rule forEach_rel[where R = R])
      note hyp = "1"(2)[unfolded y]
      show "R s0 s1"
      proof (cases "g' \<in> set (dict_keys (pValues s0))")
        case True
        with hyp have "s1 = s0" by simp
        then show ?thesis by (simp add: refl)
      next
        case new: False
        show ?thesis
        proof (cases "GOdict g'")
          case None
          with new hyp eqs show ?thesis by simp
        next
          case (Some t)
          let ?vt = "insert g' (set (recursive_children t))"
          let ?bg = "countGOassociations ?vt gafDict"
          let ?sg = "countGOassociations ?vt gafSubset"
          let ?r = "record_result g' (enrichmentOneSided sf ?sg bT ?bg sT) ?sg ?bg s0"
          show ?thesis
          proof (cases "?bg < minGenes")
            case True
            with new Some hyp eqs
            have "forEach (parents t) (\<lambda>p. rT sf p bT sT GOdict gafDict gafSubset minGenes threshold') s0
                   = Some (Inr s1)"
              by (simp add: Let_def)
            then show ?thesis by (rule loop)
          next
            case nlow: False
            have st: "R s0 ?r" using new Some nlow by (rule step)
            show ?thesis
            proof (cases "enrichmentOneSided sf ?sg bT ?bg sT > threshold'")
              case True
              with new Some nlow hyp eqs
              have "forEach (parents t) (\<lambda>p. rT sf p bT sT GOdict gafDict gafSubset minGenes threshold') ?r
                     = Some (Inr s1)"
                by (simp add: Let_def)
              then have "R ?r s1" by (rule loop)
              with st show ?thesis by (rule trans)
            next
              case False
              with new Some nlow hyp eqs have "s1 = ?r" by (simp add: Let_def)
              with st show ?thesis by simp
            qed
          qed
        qed
      qed
    qed
  qed
  from this[OF run] show ?thesis by simp
qed



lemma recursiveTester_noop:
  "GOid \<in> set (dict_keys (pValues r)) \<Longrightarrow>
   recursiveTester sf GOid bT sT GOdict gafDict gafSubset minGenes threshold r = Some (Inr r)"
  by (subst recursiveTester.simps) simp

lemma recursiveTester_unknown:
  "GOid \<notin> set (dict_keys (pValues r)) \<Longrightarrow> GOdict GOid = None \<Longrightarrow>
   recursiveTester sf GOid bT sT GOdict gafDict gafSubset minGenes threshold r = Some (Inl (KeyError GOid))"
  by (subst recursiveTester.simps) simp

lemma recursiveTester_low:
  "GOid \<notin> set (dict_keys (pValues r)) \<Longrightarrow> GOdict GOid = Some t \<Longrightarrow>
   countGOassociations (insert GOid (set (recursive_children t))) gafDict < minGenes \<Longrightarrow>
   recursiveTester sf GOid bT sT GOdict gafDict gafSubset minGenes threshold r =
   forEach (parents t) (\<lambda>parent. recursiveTester sf parent bT sT GOdict gafDict gafSubset minGenes threshold) r"
  by (subst recursiveTester.simps) (simp add: Let_def)

lemma recursiveTester_insignificant:
  "GOid \<notin> set (dict_keys (pValues r)) \<Longrightarrow> GOdict GOid = Some t \<Longrightarrow>
   bg = countGOassociations (insert GOid (set (recursive_children t))) gafDict \<Longrightarrow>
   sg = countGOassociations (insert GOid (set (recursive_children t))) gafSubset \<Longrightarrow>
   \<not> bg < minGenes \<Longrightarrow>
   pVal = enrichmentOneSided sf sg bT bg sT \<Longrightarrow> pVal > threshold \<Longrightarrow>
   recursiveTester sf GOid bT sT GOdict gafDict gafSubset minGenes threshold r =
   forEach (parents t) (\<lambda>parent. recursiveTester sf parent bT sT GOdict gafDict gafSubset minGenes threshold)
     (record_result GOid pVal sg bg r)"
  by (subst recursiveTester.simps) (simp add: Let_def)

lemma recursiveTester_significant:
  "GOid \<notin> set (dict_keys (pValues r)) \<Longrightarrow> GOdict GOid = Some t \<Longrightarrow>
   bg = countGOassociations (insert GOid (set (recursive_children t))) gafDict \<Longrightarrow>
   sg = countGOassociations (insert GOid (set (recursive_children t))) gafSubset \<Longrightarrow>
   \<not> bg < minGenes \<Longrightarrow>
   pVal = enrichmentOneSided sf sg bT bg sT \<Longrightarrow> \<not> pVal > threshold \<Longrightarrow>
   recursiveTester sf GOid bT sT GOdict gafDict gafSubset minGenes threshold r =
   Some (Inr (record_result GOid pVal sg bg r))"
  by (subst recursiveTester.simps) (simp add: Let_def)

lemma recursiveTester_terminates:
  assumes wf: "wf (parent_rel GOdict)"
  shows "\<exists>res. recursiveTester sf g bT sT GOdict gafDict gafSubset minGenes threshold r = Some res"
  using wf
proof (induction g arbitrary: r rule: wf_induct_rule)
  case (less g)
  let ?loop = "\<lambda>t. forEach (parents t)
      (\<lambda>parent. recursiveTester sf parent bT sT GOdict gafDict gafSubset minGenes threshold)"
  have loop: "\<exists>res. ?loop t r' = Some res" if "GOdict g = Some t" for t r'
  proof (rule forEach_total)
    fix p s
    assume "p \<in> set (parents t)"
    with that have "(p, g) \<in> parent_rel GOdict" by (auto simp: parent_rel_def)
    then show "\<exists>res. recursiveTester sf p bT sT GOdict gafDict gafSubset minGenes threshold s = Some res"
      by (rule less.IH)
  qed
  show ?case
  proof (cases "g \<in> set (dict_keys (pValues r))")
    case True
    then show ?thesis by (simp add: recursiveTester_noop)
  next
    case new: False
    show ?thesis
    proof (cases "GOdict g")
      case None
      with new show ?thesis by (simp add: recursiveTester_unknown)
    next
      case (Some t)
      let ?bg = "countGOassociations (insert g (set (recursive_children t))) gafDict"
      let ?sg = "countGOassociations (insert g (set (recursive_children t))) gafSubset"
      let ?p = "enrichmentOneSided sf ?sg bT ?bg sT"
      consider "?bg < minGenes" | "\<not> ?bg < minGenes" "?p > threshold"
        | "\<not> ?bg < minGenes" "\<not> ?p > threshold" by blast
      then show ?thesis
      proof cases
        case 1
        with new Some loop[OF Some] show ?thesis by (simp add: recursiveTester_low)
      next
        case 2
        from new Some refl refl 2(1) refl 2(2)
        have "recursiveTester sf g bT sT GOdict gafDict gafSubset minGenes threshold r =
              ?loop t (record_result g ?p ?sg ?bg r)"
          by (rule recursiveTester_insignificant)
        with loop[OF Some] show ?thesis by simp
      next
        case 3
        from new Some refl refl 3(1) refl 3(2)
        show ?thesis by (simp add: recursiveTester_significant)
      qed
    qed
  qed
qed

lemma parent_rel_wf:
  assumes "finite (dom GOdict)" and "acyclic (parent_rel GOdict)"
  shows "wf (parent_rel GOdict)"
proof -
  have "parent_rel GOdict \<subseteq> (\<Union>t \<in> ran GOdict. set (parents t)) \<times> dom GOdict"
    by (auto simp: parent_rel_def ran_def)
  moreover have "finite ((\<Union>t \<in> ran GOdict. set (parents t)) \<times> dom GOdict)"
    using assms(1) by (simp add: finite_ran)
  ultimately have "finite (parent_rel GOdict)" by (rule finite_subset)
  then show ?thesis using assms(2) by (rule finite_acyclic_wf)
qed



lemma dict_keys_dict_set_list:
  "dict_keys (dict_set d k v) = (if k \<in> set (dict_keys d) then dict_keys d else dict_keys d @ [k])"
  by (induction d) (force simp: dict_keys_def)+

lemma dict_keys_dict_set: "set (dict_keys (dict_set d k v)) = insert k (set (dict_keys d))"
  by (auto simp: dict_keys_dict_set_list)

lemma dict_set_fresh: "k \<notin> set (dict_keys d) \<Longrightarrow> dict_set d k v = d @ [(k, v)]"
  by (induction d) (auto simp: dict_keys_def)

lemma countGOassociations_fold:
  "fold (\<lambda>(gene, GOids) GOcounter. if vt \<inter> set GOids \<noteq> {} then GOcounter + 1 else GOcounter) xs c
     = c + int (length (filter (\<lambda>(gene, GOids). vt \<inter> set GOids \<noteq> {}) xs))"
  by (induction xs arbitrary: c) (auto split: prod.splits)

lemma countGOassociations_length:
  "countGOassociations vt gafDict = int (length (filter (\<lambda>(gene, GOids). vt \<inter> set GOids \<noteq> {}) gafDict))"
  by (simp add: countGOassociations_def countGOassociations_fold)

lemma countGOassociations_nonneg: "0 \<le> countGOassociations vt gafDict"
  by (simp add: countGOassociations_length)

lemma recursiveTester_returns:
  assumes wf: "wf (parent_rel GOdict)" and closed: "closed_hierarchy GOdict"
    and known: "g \<in> dom GOdict"
  shows "\<exists>r'. recursiveTester sf g bT sT GOdict gafDict gafSubset minGenes threshold r = Some (Inr r')"
  using wf known
proof (induction g arbitrary: r rule: wf_induct_rule)
  case (less g)
  then obtain t where Some: "GOdict g = Some t" by auto
  let ?loop = "forEach (parents t)
      (\<lambda>parent. recursiveTester sf parent bT sT GOdict gafDict gafSubset minGenes threshold)"
  have loop: "\<exists>r''. ?loop r' = Some (Inr r'')" for r'
  proof (rule forEach_ok)
    fix p s
    assume p: "p \<in> set (parents t)"
    with Some have "(p, g) \<in> parent_rel GOdict" by (auto simp: parent_rel_def)
    moreover from p Some closed have "p \<in> dom GOdict" by (auto simp: closed_hierarchy_def)
    ultimately show "\<exists>s'. recursiveTester sf p bT sT GOdict gafDict gafSubset minGenes threshold s = Some (Inr s')"
      by (rule less.IH)
  qed
  show ?case
  proof (cases "g \<in> set (dict_keys (pValues r))")
    case True
    then show ?thesis by (simp add: recursiveTester_noop)
  next
    case new: False
    let ?bg = "countGOassociations (insert g (set (recursive_children t))) gafDict"
    let ?sg = "countGOassociations (insert g (set (recursive_children t))) gafSubset"
    let ?p = "enrichmentOneSided sf ?sg bT ?bg sT"
    consider "?bg < minGenes" | "\<not> ?bg < minGenes" "?p > threshold"
      | "\<not> ?bg < minGenes" "\<not> ?p > threshold" by blast
    then show ?thesis
    proof cases
      case 1
      with new Some loop show ?thesis by (simp add: recursiveTester_low)
    next
      case 2
      from new Some refl refl 2(1) refl 2(2)
      have "recursiveTester sf g bT sT GOdict gafDict gafSubset minGenes threshold r =
            ?loop (record_result g ?p ?sg ?bg r)"
        by (rule recursiveTester_insignificant)
      with loop show ?thesis by simp
    next
      case 3
      from new Some refl refl 3(1) refl 3(2)
      show ?thesis by (simp add: recursiveTester_significant)
    qed
  qed
qed

lemma recursiveTester_keys_mono:
  assumes "recursiveTester sf g bT sT GOdict gafDict gafSubset minGenes threshold r = Some (Inr r')"
  shows "set (dict_keys (pValues r)) \<subseteq> set (dict_keys (pValues r'))"
  by (rule recursiveTester_rel[where R = "\<lambda>a b. set (dict_keys (pValues a)) \<subseteq> set (dict_keys (pValues b))",
        OF _ _ _ assms])
     (auto simp: record_result_def dict_keys_dict_set)

lemma forEach_keys_mono:
  assumes "forEach xs (\<lambda>g. recursiveTester sf g bT sT GOdict gafDict gafSubset minGenes threshold) r = Some (Inr r')"
  shows "set (dict_keys (pValues r)) \<subseteq> set (dict_keys (pValues r'))"
  by (rule forEach_rel[where R = "\<lambda>a b. set (dict_keys (pValues a)) \<subseteq> set (dict_keys (pValues b))",
        OF _ _ _ assms])
     (auto dest: recursiveTester_keys_mono)

lemma recursiveTester_records:
  assumes run: "recursiveTester sf g bT sT GOdict gafDict gafSubset minGenes threshold r = Some (Inr r')"
    and t: "GOdict g = Some t"
    and enough: "\<not> countGOassociations (insert g (set (recursive_children t))) gafDict < minGenes"
  shows "g \<in> set (dict_keys (pValues r'))"
proof (cases "g \<in> set (dict_keys (pValues r))")
  case True
  with run show ?thesis by (simp add: recursiveTester_noop)
next
  case new: False
  let ?bg = "countGOassociations (insert g (set (recursive_children t))) gafDict"
  let ?sg = "countGOassociations (insert g (set (recursive_children t))) gafSubset"
  let ?p = "enrichmentOneSided sf ?sg bT ?bg sT"
  let ?r = "record_result g ?p ?sg ?bg r"
  have in_r: "g \<in> set (dict_keys (pValues ?r))"
    by (simp add: record_result_def dict_keys_dict_set)
  show ?thesis
  proof (cases "?p > threshold")
    case True
    from new t refl refl enough refl True
    have "recursiveTester sf g bT sT GOdict gafDict gafSubset minGenes threshold r =
          forEach (parents t) (\<lambda>parent. recursiveTester sf parent bT sT GOdict gafDict gafSubset minGenes threshold) ?r"
      by (rule recursiveTester_insignificant)
    with run have "set (dict_keys (pValues ?r)) \<subseteq> set (dict_keys (pValues r'))"
      by (intro forEach_keys_mono) simp
    with in_r show ?thesis by blast
  next
    case False
    from new t refl refl enough refl False
    have "recursiveTester sf g bT sT GOdict gafDict gafSubset minGenes threshold r = Some (Inr ?r)"
      by (rule recursiveTester_significant)
    with run in_r show ?thesis by simp
  qed
qed



lemma forEach_records:
  assumes run: "forEach xs (\<lambda>g. recursiveTester sf g bT sT GOdict gafDict gafSubset minGenes threshold) r
                  = Some (Inr r')"
    and q: "q \<in> set xs" "testable GOdict gafDict minGenes q"
  shows "q \<in> set (dict_keys (pValues r'))"
  using run q(1)
proof (induction xs arbitrary: r)
  case Nil
  then show ?case by simp
next
  case (Cons x xs)
  let ?rt = "\<lambda>g. recursiveTester sf g bT sT GOdict gafDict gafSubset minGenes threshold"
  from Cons.prems(1) obtain r1 where r1: "?rt x r = Some (Inr r1)"
    and rest: "forEach xs ?rt r1 = Some (Inr r')"
    by (cases "?rt x r") (auto split: sum.splits)
  show ?case
  proof (cases "q = x")
    case True
    from q(2) obtain t where "GOdict q = Some t"
      "\<not> countGOassociations (insert q (set (recursive_children t))) gafDict < minGenes"
      by (auto simp: testable_def split: option.splits)
    with r1 True have "q \<in> set (dict_keys (pValues r1))"
      using recursiveTester_records[of sf q bT sT GOdict gafDict gafSubset minGenes threshold r r1 t]
      by simp
    with forEach_keys_mono[OF rest] show ?thesis by blast
  next
    case False
    with Cons.prems(2) have "q \<in> set xs" by simp
    with rest show ?thesis by (rule Cons.IH)
  qed
qed

lemma record_result_pValues:
  "g \<notin> set (dict_keys (pValues s)) \<Longrightarrow> pValues (record_result g p sg bg s) = pValues s @ [(g, p)]"
  by (simp add: record_result_def dict_set_fresh)

lemma map_of_dict_set: "map_of (dict_set d k v) = (map_of d)(k \<mapsto> v)"
  by (induction d) auto

lemma recursiveTester_untestable:
  assumes run: "recursiveTester sf g bT sT GOdict gafDict gafSubset minGenes threshold r = Some (Inr r')"
    and h: "\<not> testable GOdict gafDict minGenes h"
  shows "map_of (pValues r') h = map_of (pValues r) h \<and>
         map_of (interestCount r') h = map_of (interestCount r) h \<and>
         map_of (backgroundCount r') h = map_of (backgroundCount r) h \<and>
         count_list (tested r') h = count_list (tested r) h"
proof (rule recursiveTester_rel[where
        R = "\<lambda>a b. map_of (pValues b) h = map_of (pValues a) h \<and>
         map_of (interestCount b) h = map_of (interestCount a) h \<and>
         map_of (backgroundCount b) h = map_of (backgroundCount a) h \<and>
         count_list (tested b) h = count_list (tested a) h", OF _ _ _ run], goal_cases)
  case (1 s)
  show ?case by simp
next
  case (2 s s' s'')
  then show ?case by simp
next
  case (3 g t s)
  with h have "g \<noteq> h" by (auto simp: testable_def)
  then show ?case by (simp add: record_result_def map_of_dict_set)
qed

subsection \<open>Memoization\<close>

lemma dict_keys_append: "dict_keys (d @ e) = dict_keys d @ dict_keys e"
  by (simp add: dict_keys_def)

lemma record_result_consistent:
  assumes fresh: "g \<notin> set (dict_keys (pValues s))" and ok: "consistent_results s"
  shows "consistent_results (record_result g p sg bg s) \<and>
         pValues (record_result g p sg bg s) = pValues s @ [(g, p)] \<and>
         interestCount (record_result g p sg bg s) = interestCount s @ [(g, sg)] \<and>
         backgroundCount (record_result g p sg bg s) = backgroundCount s @ [(g, bg)]"
proof -
  from fresh ok have "g \<notin> set (dict_keys (interestCount s))" "g \<notin> set (dict_keys (backgroundCount s))"
    by (simp_all add: consistent_results_def)
  with fresh have eqs: "dict_set (pValues s) g p = pValues s @ [(g, p)]"
    "dict_set (interestCount s) g sg = interestCount s @ [(g, sg)]"
    "dict_set (backgroundCount s) g bg = backgroundCount s @ [(g, bg)]"
    by (simp_all add: dict_set_fresh)
  with fresh ok show ?thesis
    by (simp add: record_result_def consistent_results_def dict_keys_append)
       (simp add: dict_keys_def)
qed

lemma extends_results_refl: "extends_results s s"
  by (simp add: extends_results_def)

lemma extends_results_trans:
  "extends_results a b \<Longrightarrow> extends_results b c \<Longrightarrow> extends_results a c"
  unfolding extends_results_def by (meson prefix_order.trans)

lemma extends_results_step:
  "g \<notin> set (dict_keys (pValues s)) \<Longrightarrow> extends_results s (record_result g p sg bg s)"
  unfolding extends_results_def using record_result_consistent[of g s p sg bg] by simp

lemma recursiveTester_extends:
  assumes "recursiveTester sf g bT sT GOdict gafDict gafSubset minGenes threshold r = Some (Inr r')"
  shows "extends_results r r'"
proof (rule recursiveTester_rel[where R = extends_results, OF _ _ _ assms], goal_cases)
  case (1 s)
  show ?case by (rule extends_results_refl)
next
  case (2 s s' s'')
  then show ?case by (rule extends_results_trans)
next
  case (3 g t s)
  then show ?case by (simp add: extends_results_step)
qed

lemma forEach_extends:
  assumes "forEach xs (\<lambda>g. recursiveTester sf g bT sT GOdict gafDict gafSubset minGenes threshold) r
             = Some (Inr r')"
  shows "extends_results r r'"
proof (rule forEach_rel[where R = extends_results, OF _ _ _ assms], goal_cases)
  case (1 s)
  show ?case by (rule extends_results_refl)
next
  case (2 s s' s'')
  then show ?case by (rule extends_results_trans)
next
  case (3 x s s')
  then show ?case by (simp add: recursiveTester_extends)
qed

lemma count_list_distinct: "distinct xs \<Longrightarrow> count_list xs x = (if x \<in> set xs then 1 else 0)"
  by (induction xs) auto

text \<open>
  Claim C1. A call of \<open>recursiveTester\<close> on a term that already has an entry in \<open>pValues\<close>
  returns the table as it is: nothing is recorded, nothing is overwritten and no parent is
  visited, whatever the hierarchy holds above the term. Consequently, over any sequence of
  calls from a consistent table (the base terms of a run in any order), the three
  dictionaries only grow at their end, and every term of the final table was tested exactly
  once: a shared ancestor in a diamond is tested once, whichever base term reaches it first.
\<close>

theorem recursiveTester_memoized:
  "(GOid \<in> set (dict_keys (pValues r)) \<longrightarrow>
      recursiveTester sf GOid bT sT GOdict gafDict gafSubset minGenes threshold r = Some (Inr r)) \<and>
   (consistent_results r0 \<and>
    forEach order (\<lambda>g. recursiveTester sf g bT sT GOdict gafDict gafSubset minGenes threshold) r0
      = Some (Inr r') \<longrightarrow>
      prefix (pValues r0) (pValues r') \<and> prefix (interestCount r0) (interestCount r') \<and>
      prefix (backgroundCount r0) (backgroundCount r') \<and>
      distinct (tested r') \<and> tested r' = dict_keys (pValues r') \<and>
      (\<forall>g \<in> set (dict_keys (pValues r')). count_list (tested r') g = 1))"
proof (intro conjI impI)
  assume "GOid \<in> set (dict_keys (pValues r))"
  then show "recursiveTester sf GOid bT sT GOdict gafDict gafSubset minGenes threshold r = Some (Inr r)"
    by (rule recursiveTester_noop)
next
  assume a: "consistent_results r0 \<and>
    forEach order (\<lambda>g. recursiveTester sf g bT sT GOdict gafDict gafSubset minGenes threshold) r0
      = Some (Inr r')"
  then have "extends_results r0 r'" by (auto intro: forEach_extends)
  with a have c: "consistent_results r'" and p: "prefix (pValues r0) (pValues r')"
    "prefix (interestCount r0) (interestCount r')" "prefix (backgroundCount r0) (backgroundCount r')"
    by (simp_all add: extends_results_def)
  from p show "prefix (pValues r0) (pValues r')" "prefix (interestCount r0) (interestCount r')"
    "prefix (backgroundCount r0) (backgroundCount r')" by simp_all
  from c show d: "distinct (tested r')" and t: "tested r' = dict_keys (pValues r')"
    by (simp_all add: consistent_results_def)
  from d t show "\<forall>g \<in> set (dict_keys (pValues r')). count_list (tested r') g = 1"
    by (simp add: count_list_distinct)
qed

lemma diamond_pvalue_leaf: "enrichmentOneSided hypergeom_sf 1 8 3 3 = 23 / 28"
  by code_simp

lemma diamond_pvalue_top: "enrichmentOneSided hypergeom_sf 2 8 6 3 = 25 / 28"
  by code_simp

lemmas diamond_eval = diamond_GOdict_def diamond_gafDict_def diamond_gafSubset_def
  countGOassociations_def dict_keys_def record_result_def diamond_pvalue_leaf diamond_pvalue_top
  recursiveTester.simps Let_def

lemma diamond_run_AB:
  "forEach [''A'', ''B'']
     (\<lambda>g. recursiveTester hypergeom_sf g 8 3 diamond_GOdict diamond_gafDict diamond_gafSubset 3 (1 / 20))
     empty_results = Some (Inr diamond_results_AB)"
  by (simp add: diamond_eval empty_results_def diamond_results_AB_def)

lemma diamond_run_BA:
  "forEach [''B'', ''A'']
     (\<lambda>g. recursiveTester hypergeom_sf g 8 3 diamond_GOdict diamond_gafDict diamond_gafSubset 3 (1 / 20))
     empty_results = Some (Inr diamond_results_BA)"
  by (simp add: diamond_eval empty_results_def diamond_results_BA_def)

text \<open>The diamond, run from \<open>A\<close> then \<open>B\<close> and from \<open>B\<close> then \<open>A\<close>: the grandparent \<open>G\<close> is
  tested once in both orders, and a further call on it changes nothing.\<close>

theorem recursiveTester_memoized_witness:
  "recursiveTester hypergeom_sf ''G'' 8 3 diamond_GOdict diamond_gafDict diamond_gafSubset 3 (1 / 20)
     diamond_results_AB = Some (Inr diamond_results_AB) \<and>
   consistent_results empty_results \<and>
   forEach [''A'', ''B'']
     (\<lambda>g. recursiveTester hypergeom_sf g 8 3 diamond_GOdict diamond_gafDict diamond_gafSubset 3 (1 / 20))
     empty_results = Some (Inr diamond_results_AB) \<and>
   forEach [''B'', ''A'']
     (\<lambda>g. recursiveTester hypergeom_sf g 8 3 diamond_GOdict diamond_gafDict diamond_gafSubset 3 (1 / 20))
     empty_results = Some (Inr diamond_results_BA) \<and>
   distinct (tested diamond_results_AB) \<and> distinct (tested diamond_results_BA) \<and>
   count_list (tested diamond_results_AB) ''G'' = 1 \<and>
   count_list (tested diamond_results_BA) ''G'' = 1"
proof -
  have e: "consistent_results empty_results"
    by (simp add: consistent_results_def empty_results_def dict_keys_def)
  have gAB: "''G'' \<in> set (dict_keys (pValues diamond_results_AB))"
    by (simp add: diamond_results_AB_def dict_keys_def)
  have gBA: "''G'' \<in> set (dict_keys (pValues diamond_results_BA))"
    by (simp add: diamond_results_BA_def dict_keys_def)
  note AB = recursiveTester_memoized[of "''G''" diamond_results_AB hypergeom_sf 8 3 diamond_GOdict
      diamond_gafDict diamond_gafSubset 3 "1 / 20" empty_results "[''A'', ''B'']" diamond_results_AB]
  note BA = recursiveTester_memoized[of "''G''" diamond_results_BA hypergeom_sf 8 3 diamond_GOdict
      diamond_gafDict diamond_gafSubset 3 "1 / 20" empty_results "[''B'', ''A'']" diamond_results_BA]
  from AB gAB e diamond_run_AB
  have 1: "recursiveTester hypergeom_sf ''G'' 8 3 diamond_GOdict diamond_gafDict diamond_gafSubset 3
      (1 / 20) diamond_results_AB = Some (Inr diamond_results_AB)"
    "distinct (tested diamond_results_AB)" "count_list (tested diamond_results_AB) ''G'' = 1"
    by blast+
  from BA gBA e diamond_run_BA
  have 2: "distinct (tested diamond_results_BA)" "count_list (tested diamond_results_BA) ''G'' = 1"
    by blast+
  from 1 2 e diamond_run_AB diamond_run_BA show ?thesis by blast
qed

subsection \<open>The stopping policy\<close>

lemma example_pvalue_T: "enrichmentOneSided hypergeom_sf 2 10 4 3 = 1 / 3"
  by code_simp

lemma example_pvalue_root: "enrichmentOneSided hypergeom_sf 3 10 5 3 = 1 / 12"
  by code_simp

lemmas example_eval = example_GOdict_def example_gafDict_def example_gafSubset_def
  countGOassociations_def dict_keys_def record_result_def example_pvalue_T example_pvalue_root
  recursiveTester.simps Let_def

text \<open>
  Claim C2. Let a term be new to the table, known to the ontology and with a background count
  of at least \<open>minGenes\<close>, so that its result is recorded with the p-value \<open>pVal\<close>.
  If \<open>pVal > threshold\<close>, the call continues as the loop of \<open>recursiveTester\<close> over every direct
  parent, from the table with the new entry; when that returns, every parent that is testable
  has an entry. If \<open>pVal \<le> threshold\<close>, the call returns the table with the one new entry at
  its end and visits no parent.
\<close>

theorem recursiveTester_stopping_policy:
  assumes new: "GOid \<notin> set (dict_keys (pValues r))"
    and known: "GOdict GOid = Some t"
    and bg: "backgroundGO = countGOassociations (insert GOid (set (recursive_children t))) gafDict"
    and sg: "subsetGO = countGOassociations (insert GOid (set (recursive_children t))) gafSubset"
    and enough: "\<not> backgroundGO < minGenes"
    and p: "pVal = enrichmentOneSided sf subsetGO bT backgroundGO sT"
  shows "(pVal > threshold \<longrightarrow>
            recursiveTester sf GOid bT sT GOdict gafDict gafSubset minGenes threshold r =
              forEach (parents t)
                (\<lambda>parent. recursiveTester sf parent bT sT GOdict gafDict gafSubset minGenes threshold)
                (record_result GOid pVal subsetGO backgroundGO r) \<and>
            (\<forall>r'. recursiveTester sf GOid bT sT GOdict gafDict gafSubset minGenes threshold r
                     = Some (Inr r') \<longrightarrow>
                  (\<forall>q \<in> set (parents t). testable GOdict gafDict minGenes q \<longrightarrow>
                     q \<in> set (dict_keys (pValues r'))))) \<and>
         (pVal \<le> threshold \<longrightarrow>
            recursiveTester sf GOid bT sT GOdict gafDict gafSubset minGenes threshold r =
              Some (Inr (record_result GOid pVal subsetGO backgroundGO r)) \<and>
            pValues (record_result GOid pVal subsetGO backgroundGO r) = pValues r @ [(GOid, pVal)])"
proof (intro conjI impI allI ballI)
  assume gt: "pVal > threshold"
  from new known bg sg enough p gt
  show eq: "recursiveTester sf GOid bT sT GOdict gafDict gafSubset minGenes threshold r =
              forEach (parents t)
                (\<lambda>parent. recursiveTester sf parent bT sT GOdict gafDict gafSubset minGenes threshold)
                (record_result GOid pVal subsetGO backgroundGO r)"
    by (rule recursiveTester_insignificant)
  fix r' q
  assume "recursiveTester sf GOid bT sT GOdict gafDict gafSubset minGenes threshold r = Some (Inr r')"
    and q: "q \<in> set (parents t)" "testable GOdict gafDict minGenes q"
  with eq have "forEach (parents t)
                (\<lambda>parent. recursiveTester sf parent bT sT GOdict gafDict gafSubset minGenes threshold)
                (record_result GOid pVal subsetGO backgroundGO r) = Some (Inr r')"
    by simp
  then show "q \<in> set (dict_keys (pValues r'))" using q by (rule forEach_records)
next
  assume "pVal \<le> threshold"
  then have "\<not> pVal > threshold" by simp
  with new known bg sg enough p
  show "recursiveTester sf GOid bT sT GOdict gafDict gafSubset minGenes threshold r =
              Some (Inr (record_result GOid pVal subsetGO backgroundGO r))"
    by (rule recursiveTester_significant)
next
  from new show "pValues (record_result GOid pVal subsetGO backgroundGO r) = pValues r @ [(GOid, pVal)]"
    by (rule record_result_pValues)
qed

text \<open>The scenario of the specification: \<open>T\<close> has the p-value \<open>1 / 3\<close>. At the threshold
  \<open>1 / 20\<close> the root is tested too; at the threshold \<open>1 / 2\<close> the run stops at \<open>T\<close>.\<close>

theorem recursiveTester_stopping_policy_witness:
  "''T'' \<notin> set (dict_keys (pValues empty_results)) \<and>
   \<not> (4 :: int) < 3 \<and>
   (1 / 3 :: real) > 1 / 20 \<and>
   recursiveTester hypergeom_sf ''T'' 10 3 example_GOdict example_gafDict example_gafSubset 3 (1 / 20)
     empty_results = Some (Inr example_results) \<and>
   testable example_GOdict example_gafDict 3 ''root'' \<and>
   ''root'' \<in> set (dict_keys (pValues example_results)) \<and>
   (1 / 3 :: real) \<le> 1 / 2 \<and>
   recursiveTester hypergeom_sf ''T'' 10 3 example_GOdict example_gafDict example_gafSubset 3 (1 / 2)
     empty_results = Some (Inr (record_result ''T'' (1 / 3) 2 4 empty_results)) \<and>
   pValues (record_result ''T'' (1 / 3) 2 4 empty_results) = [(''T'', 1 / 3)]"
proof -
  let ?t = "\<lparr>name = ''leaf'', namespace = ''biological_process'', parents = [''root''],
             children = [], recursive_parents = [''root''], recursive_children = []\<rparr>"
  have new: "''T'' \<notin> set (dict_keys (pValues empty_results))"
    by (simp add: empty_results_def dict_keys_def)
  have known: "example_GOdict ''T'' = Some ?t"
    by (simp add: example_GOdict_def)
  have bg: "4 = countGOassociations (insert ''T'' (set (recursive_children ?t))) example_gafDict"
    by (simp add: countGOassociations_def example_gafDict_def)
  have sg: "2 = countGOassociations (insert ''T'' (set (recursive_children ?t))) example_gafSubset"
    by (simp add: countGOassociations_def example_gafSubset_def)
  have enough: "\<not> (4 :: int) < 3" by simp
  have p: "1 / 3 = enrichmentOneSided hypergeom_sf 2 10 4 3"
    by (simp add: example_pvalue_T)
  have root: "testable example_GOdict example_gafDict 3 ''root''"
    by (simp add: testable_def example_GOdict_def example_gafDict_def countGOassociations_def)
  have loop: "forEach [''root'']
      (\<lambda>parent. recursiveTester hypergeom_sf parent 10 3 example_GOdict example_gafDict
                   example_gafSubset 3 (1 / 20))
      (record_result ''T'' (1 / 3) 2 4 empty_results) = Some (Inr example_results)"
    by (simp add: example_eval empty_results_def example_results_def)
  note low = recursiveTester_stopping_policy[where GOid = "''T''" and r = empty_results
      and GOdict = example_GOdict and t = ?t and backgroundGO = 4 and gafDict = example_gafDict
      and subsetGO = 2 and gafSubset = example_gafSubset and minGenes = 3 and pVal = "1 / 3"
      and sf = hypergeom_sf and bT = 10 and sT = 3 and threshold = "1 / 20",
      OF new known bg sg enough p]
  note high = recursiveTester_stopping_policy[where GOid = "''T''" and r = empty_results
      and GOdict = example_GOdict and t = ?t and backgroundGO = 4 and gafDict = example_gafDict
      and subsetGO = 2 and gafSubset = example_gafSubset and minGenes = 3 and pVal = "1 / 3"
      and sf = hypergeom_sf and bT = 10 and sT = 3 and threshold = "1 / 2",
      OF new known bg sg enough p]
  from low loop have run: "recursiveTester hypergeom_sf ''T'' 10 3 example_GOdict example_gafDict
      example_gafSubset 3 (1 / 20) empty_results = Some (Inr example_results)"
    by simp
  with low root have in_table: "''root'' \<in> set (dict_keys (pValues example_results))"
    by simp
  from high have stop: "recursiveTester hypergeom_sf ''T'' 10 3 example_GOdict example_gafDict
      example_gafSubset 3 (1 / 2) empty_results = Some (Inr (record_result ''T'' (1 / 3) 2 4 empty_results))"
    "pValues (record_result ''T'' (1 / 3) 2 4 empty_results) = pValues empty_results @ [(''T'', 1 / 3)]"
    by simp_all
  from new run root in_table stop show ?thesis
    by (simp add: empty_results_def)
qed

subsection \<open>The low-count policy\<close>

text \<open>
  Claim C3. Let a term be new to the table, known to the ontology, and with a background
  count (over the term and its recursive children) below \<open>minGenes\<close>. Then the call is the
  loop of \<open>recursiveTester\<close> over every direct parent, from the unchanged table; and when it
  returns, the term has no entry in \<open>pValues\<close>, its entries in \<open>interestCount\<close> and
  \<open>backgroundCount\<close> are as before the call, and no test was run on it.
\<close>

theorem recursiveTester_low_count:
  assumes new: "GOid \<notin> set (dict_keys (pValues r))"
    and known: "GOdict GOid = Some t"
    and low: "countGOassociations (insert GOid (set (recursive_children t))) gafDict < minGenes"
  shows "recursiveTester sf GOid bT sT GOdict gafDict gafSubset minGenes threshold r =
           forEach (parents t)
             (\<lambda>parent. recursiveTester sf parent bT sT GOdict gafDict gafSubset minGenes threshold) r \<and>
         (\<forall>r'. recursiveTester sf GOid bT sT GOdict gafDict gafSubset minGenes threshold r
                  = Some (Inr r') \<longrightarrow>
               map_of (pValues r') GOid = None \<and>
               map_of (interestCount r') GOid = map_of (interestCount r) GOid \<and>
               map_of (backgroundCount r') GOid = map_of (backgroundCount r) GOid \<and>
               count_list (tested r') GOid = count_list (tested r) GOid)"
proof (intro conjI allI impI)
  from new known low
  show "recursiveTester sf GOid bT sT GOdict gafDict gafSubset minGenes threshold r =
           forEach (parents t)
             (\<lambda>parent. recursiveTester sf parent bT sT GOdict gafDict gafSubset minGenes threshold) r"
    by (rule recursiveTester_low)
next
  fix r'
  assume run: "recursiveTester sf GOid bT sT GOdict gafDict gafSubset minGenes threshold r = Some (Inr r')"
  from known low have "\<not> testable GOdict gafDict minGenes GOid"
    by (simp add: testable_def)
  with run have same: "map_of (pValues r') GOid = map_of (pValues r) GOid \<and>
         map_of (interestCount r') GOid = map_of (interestCount r) GOid \<and>
         map_of (backgroundCount r') GOid = map_of (backgroundCount r) GOid \<and>
         count_list (tested r') GOid = count_list (tested r) GOid"
    by (rule recursiveTester_untestable)
  from new have "map_of (pValues r) GOid = None"
    by (simp add: dict_keys_def map_of_eq_None_iff)
  with same show "map_of (pValues r') GOid = None"
    "map_of (interestCount r') GOid = map_of (interestCount r) GOid"
    "map_of (backgroundCount r') GOid = map_of (backgroundCount r) GOid"
    "count_list (tested r') GOid = count_list (tested r) GOid"
    by simp_all
qed

text \<open>The scenario of the specification with \<open>minGenes = 5\<close>: \<open>T\<close> has four background genes and
  is skipped, the root has five and is tested.\<close>

theorem recursiveTester_low_count_witness:
  "''T'' \<notin> set (dict_keys (pValues empty_results)) \<and>
   countGOassociations {''T''} example_gafDict < 5 \<and>
   recursiveTester hypergeom_sf ''T'' 10 3 example_GOdict example_gafDict example_gafSubset 5 (1 / 20)
     empty_results =
     Some (Inr \<lparr>pValues = [(''root'', 1 / 12)], interestCount = [(''root'', 3)],
                backgroundCount = [(''root'', 5)], corr = None, tested = [''root'']\<rparr>) \<and>
   map_of [(''root'', 1 / 12 :: real)] ''T'' = None \<and>
   count_list [''root''] ''T'' = 0"
proof -
  let ?t = "\<lparr>name = ''leaf'', namespace = ''biological_process'', parents = [''root''],
             children = [], recursive_parents = [''root''], recursive_children = []\<rparr>"
  let ?r = "\<lparr>pValues = [(''root'', 1 / 12)], interestCount = [(''root'', 3)],
             backgroundCount = [(''root'', 5)], corr = None, tested = [''root'']\<rparr>"
  have new: "''T'' \<notin> set (dict_keys (pValues empty_results))"
    by (simp add: empty_results_def dict_keys_def)
  have known: "example_GOdict ''T'' = Some ?t"
    by (simp add: example_GOdict_def)
  have low: "countGOassociations (insert ''T'' (set (recursive_children ?t))) example_gafDict < 5"
    by (simp add: countGOassociations_def example_gafDict_def)
  have loop: "forEach [''root'']
      (\<lambda>parent. recursiveTester hypergeom_sf parent 10 3 example_GOdict example_gafDict
                   example_gafSubset 5 (1 / 20))
      empty_results = Some (Inr ?r)"
    by (simp add: example_eval empty_results_def)
  note skip = recursiveTester_low_count[where GOid = "''T''" and r = empty_results
      and GOdict = example_GOdict and t = ?t and gafDict = example_gafDict and minGenes = 5
      and sf = hypergeom_sf and bT = 10 and sT = 3 and gafSubset = example_gafSubset
      and threshold = "1 / 20", OF new known low]
  from skip loop have run: "recursiveTester hypergeom_sf ''T'' 10 3 example_GOdict example_gafDict
      example_gafSubset 5 (1 / 20) empty_results = Some (Inr ?r)"
    by simp
  with skip have "map_of (pValues ?r) ''T'' = None"
    "count_list (tested ?r) ''T'' = count_list (tested empty_results) ''T''"
    by blast+
  then have "map_of [(''root'', 1 / 12 :: real)] ''T'' = None" "count_list [''root''] ''T'' = 0"
    by (simp_all add: empty_results_def)
  with new low run show ?thesis by simp
qed

subsection \<open>Base terms\<close>

lemma subsetGOidsParents_known:
  "set gs \<subseteq> dom GOdict \<Longrightarrow>
   subsetGOidsParents GOdict gs = Inr (\<Union>g \<in> set gs. set (recursive_parents (the (GOdict g))))"
  by (induction gs) auto

lemma associated_terms: "set (remdups (concat (map snd gafSubset))) = (\<Union>(gene, GOids) \<in> set gafSubset. set GOids)"
  by auto

lemma baseGOids_known:
  assumes known: "(\<Union>(gene, GOids) \<in> set gafSubset. set GOids) \<subseteq> dom GOdict"
  shows "baseGOids GOdict gafSubset =
           Inr (filter (\<lambda>GOid. GOid \<notin> (\<Union>g \<in> set (remdups (concat (map snd gafSubset))).
                                          set (recursive_parents (the (GOdict g)))))
                  (remdups (concat (map snd gafSubset))))"
proof -
  from known have "set (remdups (concat (map snd gafSubset))) \<subseteq> dom GOdict"
    by (simp only: associated_terms)
  then have "subsetGOidsParents GOdict (remdups (concat (map snd gafSubset))) =
      Inr (\<Union>g \<in> set (remdups (concat (map snd gafSubset))). set (recursive_parents (the (GOdict g))))"
    by (rule subsetGOidsParents_known)
  then show ?thesis by (simp add: baseGOids_def)
qed

text \<open>
  Claim C4. When every term associated with a subset member is a term of the ontology (so that
  the selection does not raise \<^verbatim>\<open>KeyError\<close>), the base terms from which
  \<open>enrichmentAnalysis\<close> starts the propagation are, as a set, the directly associated terms
  minus the union of the recursive parents of all of them; no base term is listed twice.
\<close>

theorem baseGOids_most_specific:
  assumes known: "(\<Union>(gene, GOids) \<in> set gafSubset. set GOids) \<subseteq> dom GOdict"
  shows "\<exists>base. baseGOids GOdict gafSubset = Inr base \<and> distinct base \<and>
           set base =
             (\<Union>(gene, GOids) \<in> set gafSubset. set GOids) -
             (\<Union>g \<in> (\<Union>(gene, GOids) \<in> set gafSubset. set GOids).
                  set (recursive_parents (the (GOdict g)))) \<and>
           enrichmentAnalysis sf GOdict gafDict gafSubset minGenes threshold =
             forEach base
               (\<lambda>GOid. recursiveTester sf GOid (int (length gafDict)) (int (length gafSubset))
                          GOdict gafDict gafSubset minGenes threshold)
               empty_results"
proof -
  let ?ids = "remdups (concat (map snd gafSubset))"
  let ?ps = "\<Union>g \<in> set ?ids. set (recursive_parents (the (GOdict g)))"
  have ids: "set ?ids = (\<Union>(gene, GOids) \<in> set gafSubset. set GOids)"
    by (rule associated_terms)
  from known have base: "baseGOids GOdict gafSubset = Inr (filter (\<lambda>GOid. GOid \<notin> ?ps) ?ids)"
    by (rule baseGOids_known)
  have "set (filter (\<lambda>GOid. GOid \<notin> ?ps) ?ids) = set ?ids - ?ps" by auto
  with ids have "set (filter (\<lambda>GOid. GOid \<notin> ?ps) ?ids) =
             (\<Union>(gene, GOids) \<in> set gafSubset. set GOids) -
             (\<Union>g \<in> (\<Union>(gene, GOids) \<in> set gafSubset. set GOids).
                  set (recursive_parents (the (GOdict g))))"
    by simp
  moreover have "distinct (filter (\<lambda>GOid. GOid \<notin> ?ps) ?ids)" by simp
  moreover have "enrichmentAnalysis sf GOdict gafDict gafSubset minGenes threshold =
             forEach (filter (\<lambda>GOid. GOid \<notin> ?ps) ?ids)
               (\<lambda>GOid. recursiveTester sf GOid (int (length gafDict)) (int (length gafSubset))
                          GOdict gafDict gafSubset minGenes threshold)
               empty_results"
    by (simp add: enrichmentAnalysis_def base)
  ultimately show ?thesis using base by blast
qed

lemma example_baseGOids: "baseGOids example_GOdict example_gafSubset = Inr [''T'']"
  by (simp add: baseGOids_def example_GOdict_def example_gafSubset_def)

text \<open>In the scenario of the specification the subset is annotated with \<open>T\<close> and with the root;
  the root is an ancestor of \<open>T\<close>, and \<open>T\<close> alone is the base.\<close>

theorem baseGOids_most_specific_witness:
  "(\<Union>(gene, GOids) \<in> set example_gafSubset. set GOids) \<subseteq> dom example_GOdict \<and>
   (\<Union>(gene, GOids) \<in> set example_gafSubset. set GOids) = {''T'', ''root''} \<and>
   baseGOids example_GOdict example_gafSubset = Inr [''T''] \<and>
   {''T''} =
     (\<Union>(gene, GOids) \<in> set example_gafSubset. set GOids) -
     (\<Union>g \<in> (\<Union>(gene, GOids) \<in> set example_gafSubset. set GOids).
          set (recursive_parents (the (example_GOdict g))))"
proof -
  have known: "(\<Union>(gene, GOids) \<in> set example_gafSubset. set GOids) \<subseteq> dom example_GOdict"
    by (simp add: example_gafSubset_def example_GOdict_def)
  have ids: "(\<Union>(gene, GOids) \<in> set example_gafSubset. set GOids) = {''T'', ''root''}"
    by (auto simp: example_gafSubset_def)
  from baseGOids_most_specific[OF known] example_baseGOids
  have "set [''T''] =
     (\<Union>(gene, GOids) \<in> set example_gafSubset. set GOids) -
     (\<Union>g \<in> (\<Union>(gene, GOids) \<in> set example_gafSubset. set GOids).
          set (recursive_parents (the (example_GOdict g))))"
    by auto
  with known ids example_baseGOids show ?thesis by simp
qed

subsection \<open>Multiple testing correction\<close>

lemma length_multipletests: "length (snd (multipletests pvals alpha m)) = length pvals"
  by (cases m) (simp_all add: multipletests_def Let_def)

lemma fold_dict_set_fresh:
  "distinct (map fst (acc @ kvs)) \<Longrightarrow> fold (\<lambda>(k, v) d. dict_set d k v) kvs acc = acc @ kvs"
proof (induction kvs arbitrary: acc)
  case Nil
  show ?case by simp
next
  case (Cons kv kvs)
  obtain k v where kv: "kv = (k, v)" by (cases kv)
  from Cons.prems kv have "k \<notin> set (dict_keys acc)" by (simp add: dict_keys_def)
  then have "dict_set acc k v = acc @ [(k, v)]" by (rule dict_set_fresh)
  moreover from Cons.prems kv have "distinct (map fst ((acc @ [(k, v)]) @ kvs))" by simp
  ultimately show ?case using Cons.IH[of "acc @ [(k, v)]"] kv by simp
qed

lemma dict_of_pairs_distinct: "distinct (map fst kvs) \<Longrightarrow> dict_of_pairs kvs = kvs"
  using fold_dict_set_fresh[of "[]" kvs] by (simp add: dict_of_pairs_def)

lemma fold_dict_set_keys:
  "set (dict_keys (fold (\<lambda>(k, v) d. dict_set d k v) kvs acc)) = set (dict_keys acc) \<union> fst ` set kvs"
  by (induction kvs arbitrary: acc) (auto simp: dict_keys_dict_set split: prod.splits)

lemma dict_of_pairs_keys: "set (dict_keys (dict_of_pairs kvs)) = fst ` set kvs"
  using fold_dict_set_keys[of kvs "[]"] by (simp add: dict_of_pairs_def dict_keys_def)

lemma multipleTestingCorrection_corr:
  "multipleTestingCorrection mt r testType threshold =
     r\<lparr>corr := Some (dict_of_pairs (zip (dict_keys (pValues r))
            (snd (mt (dict_values (pValues r)) threshold
                    (if testType = ''bonferroni'' then bonferroni else fdr_bh)))))\<rparr>"
  by (simp add: multipleTestingCorrection_def Let_def)

lemma example_fdr: "multipletests [1 / 3, 1 / 12] (1 / 20) fdr_bh = ([False, False], [1 / 3, 1 / 6])"
  by (simp add: multipletests_def)

lemma example_bonferroni:
  "multipletests [1 / 3, 1 / 12] (1 / 20) bonferroni = ([False, False], [2 / 3, 1 / 6])"
  by (simp add: multipletests_def)

text \<open>
  Claim C5, as the code has it. The claim asks for an error on a method identifier other than
  \<open>bonferroni\<close> and \<open>fdr\<close>. The code tests for \<open>bonferroni\<close> only, and its \<^verbatim>\<open>else\<close> branch
  (lines 342 to 346) takes every other identifier: it applies the Benjamini-Hochberg
  correction and raises nothing.
\<close>

theorem multipleTestingCorrection_unknown_method_counterexample:
  "multipleTestingCorrection multipletests example_results ''holm'' (1 / 20) =
     example_results\<lparr>corr := Some [(''T'', 1 / 3), (''root'', 1 / 6)]\<rparr> \<and>
   multipleTestingCorrection multipletests example_results ''bonferroni'' (1 / 20) =
     example_results\<lparr>corr := Some [(''T'', 2 / 3), (''root'', 1 / 6)]\<rparr>"
  by (simp add: multipleTestingCorrection_def example_results_def dict_values_def dict_keys_def
        example_fdr example_bonferroni dict_of_pairs_def)

text \<open>
  Claim C5, amended. For every method identifier other than \<open>bonferroni\<close>, known or not, the
  corrector returns the table with the Benjamini-Hochberg correction of its p-values under
  \<open>corr\<close>.
\<close>

theorem multipleTestingCorrection_default_fdr:
  "testType \<noteq> ''bonferroni'' \<Longrightarrow>
   multipleTestingCorrection mt r testType threshold =
     r\<lparr>corr := Some (dict_of_pairs (zip (dict_keys (pValues r))
            (snd (mt (dict_values (pValues r)) threshold fdr_bh))))\<rparr>"
  by (simp add: multipleTestingCorrection_def Let_def)

theorem multipleTestingCorrection_default_fdr_witness:
  "''sidak'' \<noteq> ''bonferroni'' \<and>
   multipleTestingCorrection multipletests example_results ''sidak'' (1 / 20) =
     example_results\<lparr>corr := Some [(''T'', 1 / 3), (''root'', 1 / 6)]\<rparr>"
proof -
  have ne: "''sidak'' \<noteq> ''bonferroni''" by simp
  from multipleTestingCorrection_default_fdr[OF ne, of multipletests example_results "1 / 20"]
  show ?thesis
    by (simp add: example_results_def dict_values_def dict_keys_def example_fdr dict_of_pairs_def)
qed

text \<open>
  Claim C9. Let the table have no key twice (it is a dictionary) and let the correction return
  as many values as it was given. Then \<open>corr\<close> is the list of the terms, in the order of
  \<open>pValues\<close>, each paired with the corrected value at its own position: at every position
  \<open>i\<close>, the term is the \<open>i\<close>-th key, the p-value handed to the correction at \<open>i\<close> is that term's
  raw p-value, and \<open>corr\<close> maps the term to the \<open>i\<close>-th corrected value.
\<close>

theorem multipleTestingCorrection_alignment:
  assumes keys: "distinct (dict_keys (pValues r))"
    and corrected: "corrected = snd (mt (dict_values (pValues r)) threshold
                                     (if testType = ''bonferroni'' then bonferroni else fdr_bh))"
    and len: "length corrected = length (pValues r)"
    and i: "i < length (pValues r)"
  shows "corr (multipleTestingCorrection mt r testType threshold) =
           Some (zip (dict_keys (pValues r)) corrected) \<and>
         map_of (pValues r) (dict_keys (pValues r) ! i) = Some (dict_values (pValues r) ! i) \<and>
         map_of (zip (dict_keys (pValues r)) corrected) (dict_keys (pValues r) ! i) =
           Some (corrected ! i)"
proof (intro conjI)
  from keys len have "distinct (map fst (zip (dict_keys (pValues r)) corrected))"
    by (simp add: dict_keys_def)
  then have "dict_of_pairs (zip (dict_keys (pValues r)) corrected) = zip (dict_keys (pValues r)) corrected"
    by (rule dict_of_pairs_distinct)
  with corrected show "corr (multipleTestingCorrection mt r testType threshold) =
           Some (zip (dict_keys (pValues r)) corrected)"
    by (simp add: multipleTestingCorrection_corr)
next
  have "pValues r = zip (dict_keys (pValues r)) (dict_values (pValues r))"
    by (simp add: dict_keys_def dict_values_def zip_map_fst_snd)
  moreover have "map_of (zip (dict_keys (pValues r)) (dict_values (pValues r))) (dict_keys (pValues r) ! i)
      = Some (dict_values (pValues r) ! i)"
    using keys i by (intro map_of_zip_nth) (simp_all add: dict_keys_def dict_values_def)
  ultimately show "map_of (pValues r) (dict_keys (pValues r) ! i) = Some (dict_values (pValues r) ! i)"
    by simp
next
  show "map_of (zip (dict_keys (pValues r)) corrected) (dict_keys (pValues r) ! i) = Some (corrected ! i)"
    using keys len i by (intro map_of_zip_nth) (simp_all add: dict_keys_def)
qed

text \<open>The table of the scenario under the Benjamini-Hochberg correction: the root, at position
  1, has the raw p-value \<open>1 / 12\<close> and the corrected value \<open>1 / 6\<close>.\<close>

theorem multipleTestingCorrection_alignment_witness:
  "distinct (dict_keys (pValues example_results)) \<and>
   [1 / 3, 1 / 6] = snd (multipletests (dict_values (pValues example_results)) (1 / 20)
                          (if ''fdr'' = ''bonferroni'' then bonferroni else fdr_bh)) \<and>
   length [1 / 3, 1 / 6 :: real] = length (pValues example_results) \<and>
   1 < length (pValues example_results) \<and>
   corr (multipleTestingCorrection multipletests example_results ''fdr'' (1 / 20)) =
     Some [(''T'', 1 / 3), (''root'', 1 / 6)] \<and>
   dict_keys (pValues example_results) ! 1 = ''root'' \<and>
   map_of (pValues example_results) ''root'' = Some (1 / 12) \<and>
   map_of [(''T'', 1 / 3), (''root'', 1 / 6 :: real)] ''root'' = Some (1 / 6)"
proof -
  have keys: "distinct (dict_keys (pValues example_results))"
    by (simp add: example_results_def dict_keys_def)
  have corrected: "[1 / 3, 1 / 6] = snd (multipletests (dict_values (pValues example_results)) (1 / 20)
                          (if ''fdr'' = ''bonferroni'' then bonferroni else fdr_bh))"
    by (simp add: example_results_def dict_values_def example_fdr)
  have len: "length [1 / 3, 1 / 6 :: real] = length (pValues example_results)"
    by (simp add: example_results_def)
  have i: "1 < length (pValues example_results)"
    by (simp add: example_results_def)
  have k: "dict_keys (pValues example_results) ! 1 = ''root''"
    "dict_keys (pValues example_results) = [''T'', ''root'']"
    "dict_values (pValues example_results) ! 1 = 1 / 12"
    by (simp_all add: example_results_def dict_keys_def dict_values_def)
  from multipleTestingCorrection_alignment[where r = example_results and mt = multipletests
      and corrected = "[1 / 3, 1 / 6]" and threshold = "1 / 20" and testType = "''fdr''" and i = 1,
      OF keys corrected len i] k
  have "corr (multipleTestingCorrection multipletests example_results ''fdr'' (1 / 20)) =
     Some [(''T'', 1 / 3), (''root'', 1 / 6)]"
    "map_of (pValues example_results) ''root'' = Some (1 / 12)"
    "map_of [(''T'', 1 / 3), (''root'', 1 / 6 :: real)] ''root'' = Some (1 / 6)"
    by simp_all
  with keys corrected len i k(1) show ?thesis by blast
qed

text \<open>
  Claim C10. \<open>multipleTestingCorrection\<close> changes the table in the entry \<open>corr\<close> only: the
  dictionaries \<open>pValues\<close>, \<open>interestCount\<close> and \<open>backgroundCount\<close> are as before the call. When
  the correction returns as many values as it was given, the keys of \<open>corr\<close> are the keys of
  \<open>pValues\<close>.
\<close>

theorem multipleTestingCorrection_frame:
  assumes len: "length (snd (mt (dict_values (pValues r)) threshold
                               (if testType = ''bonferroni'' then bonferroni else fdr_bh)))
                = length (pValues r)"
  shows "multipleTestingCorrection mt r testType threshold =
           r\<lparr>corr := corr (multipleTestingCorrection mt r testType threshold)\<rparr> \<and>
         pValues (multipleTestingCorrection mt r testType threshold) = pValues r \<and>
         interestCount (multipleTestingCorrection mt r testType threshold) = interestCount r \<and>
         backgroundCount (multipleTestingCorrection mt r testType threshold) = backgroundCount r \<and>
         (\<exists>c. corr (multipleTestingCorrection mt r testType threshold) = Some c \<and>
              set (dict_keys c) = set (dict_keys (pValues r)))"
proof -
  let ?cs = "snd (mt (dict_values (pValues r)) threshold
                    (if testType = ''bonferroni'' then bonferroni else fdr_bh))"
  from len have "fst ` set (zip (dict_keys (pValues r)) ?cs) = set (dict_keys (pValues r))"
    by (metis dict_keys_def length_map map_fst_zip set_map)
  then have "set (dict_keys (dict_of_pairs (zip (dict_keys (pValues r)) ?cs))) = set (dict_keys (pValues r))"
    by (simp add: dict_of_pairs_keys)
  then show ?thesis
    by (simp add: multipleTestingCorrection_corr)
qed

theorem multipleTestingCorrection_frame_witness:
  "length (snd (multipletests (dict_values (pValues example_results)) (1 / 20)
                  (if ''bonferroni'' = ''bonferroni'' then bonferroni else fdr_bh)))
     = length (pValues example_results) \<and>
   pValues (multipleTestingCorrection multipletests example_results ''bonferroni'' (1 / 20)) =
     pValues example_results \<and>
   interestCount (multipleTestingCorrection multipletests example_results ''bonferroni'' (1 / 20)) =
     interestCount example_results \<and>
   backgroundCount (multipleTestingCorrection multipletests example_results ''bonferroni'' (1 / 20)) =
     backgroundCount example_results \<and>
   (\<exists>c. corr (multipleTestingCorrection multipletests example_results ''bonferroni'' (1 / 20)) = Some c \<and>
        set (dict_keys c) = {''T'', ''root''})"
proof -
  have len: "length (snd (multipletests (dict_values (pValues example_results)) (1 / 20)
                  (if ''bonferroni'' = ''bonferroni'' then bonferroni else fdr_bh)))
     = length (pValues example_results)"
    by (simp add: length_multipletests dict_values_def)
  have "set (dict_keys (pValues example_results)) = {''T'', ''root''}"
    by (simp add: example_results_def dict_keys_def)
  with multipleTestingCorrection_frame[where mt = multipletests and r = example_results
      and threshold = "1 / 20" and testType = "''bonferroni''", OF len] len
  show ?thesis by simp
qed

subsection \<open>The hypergeometric distribution\<close>

lemma hypergeom_total_mass:
  assumes "n \<le> M" and "N \<le> M"
  shows "sum_list (map (hypergeom_pmf M n N) [0..<Suc N]) = 1"
proof -
  have pos: "0 < M choose N" using assms(2) by (simp add: zero_less_binomial)
  have range: "set [0..<Suc N] = {..N}" by auto
  have "sum_list (map (hypergeom_pmf M n N) [0..<Suc N]) = sum (hypergeom_pmf M n N) (set [0..<Suc N])"
    by (rule interv_sum_list_conv_sum_set_nat)
  also have "\<dots> = (\<Sum>j\<le>N. hypergeom_pmf M n N j)"
    by (simp only: range)
  also have "\<dots> = (\<Sum>j\<le>N. real ((n choose j) * ((M - n) choose (N - j))) / real (M choose N))"
    by (rule sum.cong) (simp_all add: hypergeom_pmf_def)
  also have "\<dots> = real (\<Sum>j\<le>N. (n choose j) * ((M - n) choose (N - j))) / real (M choose N)"
    by (simp add: sum_divide_distrib)
  also have "(\<Sum>j\<le>N. (n choose j) * ((M - n) choose (N - j))) = (n + (M - n)) choose N"
    by (rule vandermonde)
  also have "n + (M - n) = M" using assms(1) by simp
  finally show ?thesis using pos by simp
qed

lemma hypergeom_sf_upper_tail:
  assumes "0 \<le> k" and "k \<le> N + 1" and "0 \<le> n" and "n \<le> M" and "0 \<le> N" and "N \<le> M"
  shows "enrichmentOneSided hypergeom_sf k M n N =
           sum_list (map (hypergeom_pmf (nat M) (nat n) (nat N)) [nat k..<Suc (nat N)])"
proof -
  let ?f = "hypergeom_pmf (nat M) (nat n) (nat N)"
  from assms have k: "nat k \<le> Suc (nat N)" by simp
  have "[0..<Suc (nat N)] = [0..<nat k] @ [nat k..<Suc (nat N)]"
    using k by (metis le_add_diff_inverse upt_add_eq_append zero_le)
  then have "sum_list (map ?f [0..<Suc (nat N)]) =
             sum_list (map ?f [0..<nat k]) + sum_list (map ?f [nat k..<Suc (nat N)])"
    by simp
  moreover have "sum_list (map ?f [0..<Suc (nat N)]) = 1"
    using assms by (intro hypergeom_total_mass) simp_all
  moreover have "nat (k - 1 + 1) = nat k" by simp
  ultimately show ?thesis
    by (simp add: enrichmentOneSided_def hypergeom_sf_def hypergeom_cdf_def)
qed

text \<open>
  Claim C8. With \<open>subsetGO = 0\<close> and otherwise valid counts, \<open>enrichmentOneSided\<close> evaluates the
  survival function at \<open>-1\<close>, and under the hypergeometric distribution of the specification
  the p-value is exactly 1.
\<close>

theorem enrichmentOneSided_zero_successes:
  assumes "0 \<le> backgroundGO" and "backgroundGO \<le> backgroundTotal"
    and "0 \<le> subsetTotal" and "subsetTotal \<le> backgroundTotal"
  shows "enrichmentOneSided sf 0 backgroundTotal backgroundGO subsetTotal =
           sf (- 1) backgroundTotal backgroundGO subsetTotal \<and>
         enrichmentOneSided hypergeom_sf 0 backgroundTotal backgroundGO subsetTotal = 1"
proof
  show "enrichmentOneSided sf 0 backgroundTotal backgroundGO subsetTotal =
           sf (- 1) backgroundTotal backgroundGO subsetTotal"
    by (simp add: enrichmentOneSided_def)
next
  have "enrichmentOneSided hypergeom_sf 0 backgroundTotal backgroundGO subsetTotal =
          sum_list (map (hypergeom_pmf (nat backgroundTotal) (nat backgroundGO) (nat subsetTotal))
                      [nat 0..<Suc (nat subsetTotal)])"
    using assms by (intro hypergeom_sf_upper_tail) simp_all
  also have "\<dots> = 1"
    using assms hypergeom_total_mass[of "nat backgroundGO" "nat backgroundTotal" "nat subsetTotal"]
    by simp
  finally show "enrichmentOneSided hypergeom_sf 0 backgroundTotal backgroundGO subsetTotal = 1" .
qed

text \<open>The worked example of the specification, with no success observed.\<close>

theorem enrichmentOneSided_zero_successes_witness:
  "(0 :: int) \<le> 4 \<and> (4 :: int) \<le> 10 \<and> (0 :: int) \<le> 3 \<and> (3 :: int) \<le> 10 \<and>
   enrichmentOneSided hypergeom_sf 0 10 4 3 = 1"
  using enrichmentOneSided_zero_successes[of 4 10 3 hypergeom_sf] by simp

subsection \<open>Termination\<close>

lemma cyclic_diverges_aux:
  assumes run: "recursiveTester sf' g' bT' sT' GOdict' gafDict' gafSubset' minGenes' threshold' s0 = Some y"
  shows "g' = ''C'' \<and> GOdict' = cyclic_GOdict \<and> gafDict' = cyclic_gaf \<and> minGenes' = 3 \<and>
         s0 = empty_results \<longrightarrow> False"
proof (rule recursiveTester.raw_induct[where P = "\<lambda>sf' g' bT' sT' GOdict' gafDict' gafSubset' minGenes' threshold' s0 y.
        g' = ''C'' \<and> GOdict' = cyclic_GOdict \<and> gafDict' = cyclic_gaf \<and> minGenes' = 3 \<and>
        s0 = empty_results \<longrightarrow> False", OF _ run], goal_cases)
  case (1 rT sf' g' bT' sT' GOdict' gafDict' gafSubset' minGenes' threshold' s0 y)
  show ?case
  proof
    assume eqs: "g' = ''C'' \<and> GOdict' = cyclic_GOdict \<and> gafDict' = cyclic_gaf \<and> minGenes' = 3 \<and>
      s0 = empty_results"
    have "''C'' \<notin> set (dict_keys (pValues empty_results))"
      by (simp add: empty_results_def dict_keys_def)
    moreover have "cyclic_GOdict ''C'' =
        Some \<lparr>name = ''c'', namespace = ''biological_process'', parents = [''C''],
              children = [''B'', ''C''], recursive_parents = [''C''],
              recursive_children = [''B'', ''C'']\<rparr>"
      by (simp add: cyclic_GOdict_def)
    moreover have "countGOassociations (insert ''C'' (set [''B'', ''C''])) cyclic_gaf < 3"
      by (simp add: countGOassociations_def cyclic_gaf_def)
    ultimately obtain res where
      "rT sf' ''C'' bT' sT' cyclic_GOdict cyclic_gaf gafSubset' 3 threshold' empty_results = Some res"
      using "1"(2) eqs by (auto simp: Let_def bind_eq_Some_conv)
    from "1"(1)[OF this] show False by simp
  qed
qed

lemma cyclic_diverges:
  "recursiveTester sf ''C'' bT sT cyclic_GOdict cyclic_gaf gafSubset 3 threshold empty_results = None"
proof (cases "recursiveTester sf ''C'' bT sT cyclic_GOdict cyclic_gaf gafSubset 3 threshold empty_results")
  case None
  then show ?thesis .
next
  case (Some a)
  from cyclic_diverges_aux[OF this] show ?thesis by simp
qed

text \<open>
  Claim C6, as the code has it. The claim asks for termination on every input, a hierarchy
  with a cycle included. The only guard of the recursion is the table of recorded terms, and
  a term with too few background genes is never recorded: in the malformed hierarchy where
  \<open>C\<close> is its own parent and one gene is annotated below it, the call on \<open>C\<close> does not return,
  and neither does the analysis that reaches \<open>C\<close> from the base term \<open>B\<close>.
\<close>

theorem recursiveTester_cyclic_counterexample:
  "recursiveTester hypergeom_sf ''C'' 1 1 cyclic_GOdict cyclic_gaf cyclic_gaf 3 (1 / 20) empty_results
     = None \<and>
   baseGOids cyclic_GOdict cyclic_gaf = Inr [''B''] \<and>
   enrichmentAnalysis hypergeom_sf cyclic_GOdict cyclic_gaf cyclic_gaf 3 (1 / 20) = None"
proof (intro conjI)
  show "recursiveTester hypergeom_sf ''C'' 1 1 cyclic_GOdict cyclic_gaf cyclic_gaf 3 (1 / 20)
      empty_results = None"
    by (rule cyclic_diverges)
  show base: "baseGOids cyclic_GOdict cyclic_gaf = Inr [''B'']"
    by (simp add: baseGOids_def cyclic_GOdict_def cyclic_gaf_def)
  have "recursiveTester hypergeom_sf ''B'' 1 1 cyclic_GOdict cyclic_gaf cyclic_gaf 3 (1 / 20)
      empty_results =
    forEach [''C'']
      (\<lambda>parent. recursiveTester hypergeom_sf parent 1 1 cyclic_GOdict cyclic_gaf cyclic_gaf 3 (1 / 20))
      empty_results"
    by (subst recursiveTester.simps)
       (simp add: cyclic_GOdict_def cyclic_gaf_def empty_results_def dict_keys_def
          countGOassociations_def)
  then have "recursiveTester hypergeom_sf ''B'' 1 1 cyclic_GOdict cyclic_gaf cyclic_gaf 3 (1 / 20)
      empty_results = None"
    by (simp add: cyclic_diverges)
  moreover have "int (length cyclic_gaf) = 1" by (simp add: cyclic_gaf_def)
  ultimately show "enrichmentAnalysis hypergeom_sf cyclic_GOdict cyclic_gaf cyclic_gaf 3 (1 / 20) = None"
    by (simp add: enrichmentAnalysis_def base)
qed

lemma enrichmentAnalysis_terminates:
  assumes "wf (parent_rel GOdict)"
  shows "\<exists>res. enrichmentAnalysis sf GOdict gafDict gafSubset minGenes threshold = Some res"
proof (cases "baseGOids GOdict gafSubset")
  case (Inl e)
  then show ?thesis by (simp add: enrichmentAnalysis_def)
next
  case (Inr base)
  have "\<exists>res. forEach base
      (\<lambda>GOid. recursiveTester sf GOid (int (length gafDict)) (int (length gafSubset)) GOdict gafDict
                 gafSubset minGenes threshold) empty_results = Some res"
    by (rule forEach_total) (rule recursiveTester_terminates[OF assms])
  with Inr show ?thesis by (simp add: enrichmentAnalysis_def)
qed

text \<open>
  Claim C6, amended. On every ontology with finitely many terms and an acyclic parent
  relation, every call of \<open>recursiveTester\<close> returns (with a table or with \<^verbatim>\<open>KeyError\<close>),
  and so does \<open>enrichmentAnalysis\<close>.
\<close>

theorem recursiveTester_terminates_on_dag:
  assumes "finite (dom GOdict)" and "acyclic (parent_rel GOdict)"
  shows "(\<exists>res. recursiveTester sf GOid bT sT GOdict gafDict gafSubset minGenes threshold r = Some res) \<and>
         (\<exists>res. enrichmentAnalysis sf GOdict gafDict gafSubset minGenes threshold = Some res)"
proof -
  from assms have "wf (parent_rel GOdict)" by (rule parent_rel_wf)
  then show ?thesis
    by (simp add: recursiveTester_terminates enrichmentAnalysis_terminates)
qed

lemma example_parent_rel: "parent_rel example_GOdict = {(''root'', ''T'')}"
  by (auto simp: parent_rel_def example_GOdict_def split: if_splits)

lemma example_finite: "finite (dom example_GOdict)"
  by (simp add: example_GOdict_def)

lemma example_acyclic: "acyclic (parent_rel example_GOdict)"
proof -
  have "acyclic ({} :: (GOid \<times> GOid) set)" by (simp add: acyclic_def)
  then show ?thesis by (simp add: example_parent_rel acyclic_insert)
qed

theorem recursiveTester_terminates_on_dag_witness:
  "finite (dom example_GOdict) \<and> acyclic (parent_rel example_GOdict) \<and>
   (\<exists>res. recursiveTester hypergeom_sf ''T'' 10 3 example_GOdict example_gafDict example_gafSubset 3
            (1 / 20) empty_results = Some res) \<and>
   (\<exists>res. enrichmentAnalysis hypergeom_sf example_GOdict example_gafDict example_gafSubset 3 (1 / 20)
            = Some res)"
  using recursiveTester_terminates_on_dag[OF example_finite example_acyclic]
    example_finite example_acyclic by blast

subsection \<open>Configuration\<close>

lemma example_closed: "closed_hierarchy example_GOdict"
  by (auto simp: closed_hierarchy_def example_GOdict_def split: if_splits)

text \<open>
  Claim C7, as the code has it. The claim asks for an error at the start of the run when
  \<open>threshold\<close> lies outside \<open>(0, 1]\<close> or \<open>minGenes\<close> is negative. \<open>enrichmentAnalysis\<close> checks
  neither: with \<open>threshold = 2\<close> and \<open>minGenes = -1\<close> the scenario of the specification is
  analysed, and \<open>T\<close> is tested and written to the table.
\<close>

theorem enrichmentAnalysis_invalid_configuration_counterexample:
  "enrichmentAnalysis hypergeom_sf example_GOdict example_gafDict example_gafSubset (- 1) 2 =
     Some (Inr \<lparr>pValues = [(''T'', 1 / 3)], interestCount = [(''T'', 2)],
                backgroundCount = [(''T'', 4)], corr = None, tested = [''T'']\<rparr>)"
  by (simp add: enrichmentAnalysis_def example_baseGOids)
     (simp add: example_eval empty_results_def)

lemma enrichmentAnalysis_runs:
  assumes fin: "finite (dom GOdict)" and acyc: "acyclic (parent_rel GOdict)"
    and closed: "closed_hierarchy GOdict"
    and known: "(\<Union>(gene, GOids) \<in> set gafSubset. set GOids) \<subseteq> dom GOdict"
  shows "\<exists>base r. baseGOids GOdict gafSubset = Inr base \<and> set base \<subseteq> dom GOdict \<and>
           enrichmentAnalysis sf GOdict gafDict gafSubset minGenes threshold = Some (Inr r) \<and>
           (\<forall>g \<in> set base. testable GOdict gafDict minGenes g \<longrightarrow> g \<in> set (dict_keys (pValues r)))"
proof -
  let ?ids = "remdups (concat (map snd gafSubset))"
  let ?base = "filter (\<lambda>GOid. GOid \<notin> (\<Union>g \<in> set ?ids. set (recursive_parents (the (GOdict g))))) ?ids"
  let ?rt = "\<lambda>GOid. recursiveTester sf GOid (int (length gafDict)) (int (length gafSubset)) GOdict
                      gafDict gafSubset minGenes threshold"
  from known have base: "baseGOids GOdict gafSubset = Inr ?base" by (rule baseGOids_known)
  have "set ?base \<subseteq> set ?ids" by auto
  with known associated_terms[of gafSubset] have dom: "set ?base \<subseteq> dom GOdict" by blast
  from fin acyc have wf: "wf (parent_rel GOdict)" by (rule parent_rel_wf)
  have "\<exists>r. forEach ?base ?rt empty_results = Some (Inr r)"
  proof (rule forEach_ok)
    fix x s
    assume "x \<in> set ?base"
    with dom have "x \<in> dom GOdict" by blast
    with wf closed show "\<exists>s'. ?rt x s = Some (Inr s')" by (rule recursiveTester_returns)
  qed
  then obtain r where r: "forEach ?base ?rt empty_results = Some (Inr r)" by blast
  then have "enrichmentAnalysis sf GOdict gafDict gafSubset minGenes threshold = Some (Inr r)"
    by (simp add: enrichmentAnalysis_def base)
  moreover have "\<forall>g \<in> set ?base. testable GOdict gafDict minGenes g \<longrightarrow> g \<in> set (dict_keys (pValues r))"
    using forEach_records[OF r] by blast
  ultimately show ?thesis using base dom by blast
qed

text \<open>
  Claim C7, amended. \<open>enrichmentAnalysis\<close> does not check its configuration: for every
  \<open>threshold\<close> and every \<open>minGenes\<close>, on an ontology with finitely many terms and an acyclic
  parent relation that holds every associated term and every parent it names, the analysis
  returns a result table and no error, and every base term with a background count of at
  least \<open>minGenes\<close> has an entry in it; for \<open>minGenes \<le> 0\<close> that is every base term.
\<close>

theorem enrichmentAnalysis_no_validation:
  assumes fin: "finite (dom GOdict)" and acyc: "acyclic (parent_rel GOdict)"
    and closed: "closed_hierarchy GOdict"
    and known: "(\<Union>(gene, GOids) \<in> set gafSubset. set GOids) \<subseteq> dom GOdict"
  shows "\<exists>base r. baseGOids GOdict gafSubset = Inr base \<and>
           enrichmentAnalysis sf GOdict gafDict gafSubset minGenes threshold = Some (Inr r) \<and>
           (\<forall>g \<in> set base. testable GOdict gafDict minGenes g \<longrightarrow> g \<in> set (dict_keys (pValues r))) \<and>
           (minGenes \<le> 0 \<longrightarrow> set base \<subseteq> set (dict_keys (pValues r)))"
proof -
  from enrichmentAnalysis_runs[OF fin acyc closed known, of sf gafDict minGenes threshold]
  obtain base r where base: "baseGOids GOdict gafSubset = Inr base" and dom: "set base \<subseteq> dom GOdict"
    and run: "enrichmentAnalysis sf GOdict gafDict gafSubset minGenes threshold = Some (Inr r)"
    and rec: "\<forall>g \<in> set base. testable GOdict gafDict minGenes g \<longrightarrow> g \<in> set (dict_keys (pValues r))"
    by blast
  have "set base \<subseteq> set (dict_keys (pValues r))" if "minGenes \<le> 0"
  proof
    fix g
    assume g: "g \<in> set base"
    with dom obtain t where "GOdict g = Some t" by blast
    moreover have "0 \<le> countGOassociations (insert g (set (recursive_children t))) gafDict"
      by (rule countGOassociations_nonneg)
    ultimately have "testable GOdict gafDict minGenes g"
      using that by (simp add: testable_def)
    with rec g show "g \<in> set (dict_keys (pValues r))" by blast
  qed
  with base run rec show ?thesis by blast
qed

theorem enrichmentAnalysis_no_validation_witness:
  "finite (dom example_GOdict) \<and> acyclic (parent_rel example_GOdict) \<and>
   closed_hierarchy example_GOdict \<and>
   (\<Union>(gene, GOids) \<in> set example_gafSubset. set GOids) \<subseteq> dom example_GOdict \<and>
   (- 1 :: int) \<le> 0 \<and>
   (\<exists>r. enrichmentAnalysis hypergeom_sf example_GOdict example_gafDict example_gafSubset (- 1) 2
           = Some (Inr r) \<and>
        ''T'' \<in> set (dict_keys (pValues r)))"
proof -
  have known: "(\<Union>(gene, GOids) \<in> set example_gafSubset. set GOids) \<subseteq> dom example_GOdict"
    by (simp add: example_gafSubset_def example_GOdict_def)
  from enrichmentAnalysis_no_validation[OF example_finite example_acyclic example_closed known,
      of hypergeom_sf example_gafDict "- 1" 2]
  have "\<exists>r. enrichmentAnalysis hypergeom_sf example_GOdict example_gafDict example_gafSubset (- 1) 2
           = Some (Inr r) \<and> ''T'' \<in> set (dict_keys (pValues r))"
    by (auto simp: example_baseGOids)
  with example_finite example_acyclic example_closed known show ?thesis by simp
qed

end
